theory Spec2Isabelle
  imports Main "HOL-Library.Word" "HOL-Library.Signed_Division"
begin

section \<open>Pragotron controller: minute arithmetic\<close>

text \<open>
  The controller keeps the position of the clock hands as a C \<open>int\<close> holding the minute of
  the day. All values that occur stay far inside the 32-bit range, so \<open>int\<close> is modelled
  by the HOL integers; what does matter is that the C operator \<open>%\<close> truncates towards
  zero, which is \<open>smod\<close> and not HOL's \<open>mod\<close>.
\<close>

type_synonym u32 = "32 word"

text \<open>
  \<open>SystemManager::diffForwardMinutes\<close> (SystemManager.h):
  \<^verbatim>\<open>int diff = ((toMinutes - fromMinutes) % 1440 + 1440) % 1440;\<close>
\<close>

definition diffForwardMinutes :: "int \<Rightarrow> int \<Rightarrow> int" where
  "diffForwardMinutes fromMinutes toMinutes =
     (((toMinutes - fromMinutes) smod 1440) + 1440) smod 1440"

section \<open>Hardware: millisecond clock and the two bridge inputs\<close>

text \<open>
  The Arduino primitives the controller uses are modelled by an explicit hardware state:
  \<open>millis()\<close> reads a 32-bit millisecond counter, \<open>delay(ms)\<close> advances it, and
  \<open>digitalWrite\<close> sets one of the two H-bridge inputs. Every write is also appended to
  a trace, so that "no output was driven" and "which polarity was emitted" are observable.
  GPIO writes cannot fail.
\<close>

datatype bridge_pin = IN1 | IN2

record hw =
  clock_ms :: u32
  in1 :: bool
  in2 :: bool
  writes :: "(bridge_pin \<times> bool) list"

definition millis :: "hw \<Rightarrow> u32" where
  "millis h = clock_ms h"

definition delay :: "u32 \<Rightarrow> hw \<Rightarrow> hw" where
  "delay ms h = h\<lparr>clock_ms := clock_ms h + ms\<rparr>"

fun digitalWrite :: "bridge_pin \<Rightarrow> bool \<Rightarrow> hw \<Rightarrow> hw" where
  "digitalWrite IN1 v h = h\<lparr>in1 := v, writes := writes h @ [(IN1, v)]\<rparr>"
| "digitalWrite IN2 v h = h\<lparr>in2 := v, writes := writes h @ [(IN2, v)]\<rparr>"

text \<open>
  Polarity A is IN1 driven HIGH, polarity B is IN2 driven HIGH (\<open>pulseA\<close>, \<open>pulseB\<close>).
  The polarities emitted so far are the HIGH writes of the trace, in order.
\<close>

datatype polarity = PolA | PolB

fun drive_of :: "bridge_pin \<times> bool \<Rightarrow> polarity list" where
  "drive_of (IN1, True) = [PolA]"
| "drive_of (IN2, True) = [PolB]"
| "drive_of (p, False) = []"

definition emitted :: "hw \<Rightarrow> polarity list" where
  "emitted h = concat (map drive_of (writes h))"

section \<open>PulseManager\<close>

text \<open>
  The private fields of \<open>class PulseManager\<close> (PulseManager.h) with their in-class
  initialisers. The pin numbers are constants of the wiring and are represented by
  \<open>IN1\<close> and \<open>IN2\<close>.
\<close>

record PulseManager =
  durationMs :: int
  pauseMs :: int
  lastWasA :: bool
  lastTrigMs :: u32
  minGapMs :: u32

definition PulseManager_new :: PulseManager where
  "PulseManager_new =
     \<lparr>durationMs = 200, pauseMs = 200, lastWasA = False, lastTrigMs = 0, minGapMs = 600\<rparr>"

text \<open>\<open>PulseManager::begin\<close>: both inputs LOW, alternation reset so that the next pulse is A.\<close>

definition PulseManager_begin :: "PulseManager \<Rightarrow> hw \<Rightarrow> PulseManager \<times> hw" where
  "PulseManager_begin pm h =
     (pm\<lparr>lastWasA := False, lastTrigMs := 0\<rparr>,
      digitalWrite IN2 False (digitalWrite IN1 False h))"

definition setImpulseTiming :: "int \<Rightarrow> int \<Rightarrow> PulseManager \<Rightarrow> PulseManager" where
  "setImpulseTiming pulseDurationMs pauseAfterMs pm =
     pm\<lparr>durationMs := pulseDurationMs, pauseMs := pauseAfterMs\<rparr>"

definition setMinGapMs :: "u32 \<Rightarrow> PulseManager \<Rightarrow> PulseManager" where
  "setMinGapMs ms pm = pm\<lparr>minGapMs := ms\<rparr>"

definition stopBridge :: "hw \<Rightarrow> hw" where
  "stopBridge h = digitalWrite IN2 False (digitalWrite IN1 False h)"

text \<open>
  \<open>pulseA\<close> / \<open>pulseB\<close>: drive one polarity for \<open>durationMs\<close>, coast, wait \<open>pauseMs\<close>.
  \<open>delay\<close> takes an unsigned argument, hence the conversion of the \<open>int\<close> fields.
\<close>

definition pulseA :: "PulseManager \<Rightarrow> hw \<Rightarrow> hw" where
  "pulseA pm h =
     delay (word_of_int (pauseMs pm))
       (stopBridge
          (delay (word_of_int (durationMs pm))
             (digitalWrite IN2 False (digitalWrite IN1 True h))))"

definition pulseB :: "PulseManager \<Rightarrow> hw \<Rightarrow> hw" where
  "pulseB pm h =
     delay (word_of_int (pauseMs pm))
       (stopBridge
          (delay (word_of_int (durationMs pm))
             (digitalWrite IN2 True (digitalWrite IN1 False h))))"

text \<open>
  The guard interval of \<open>triggerPulse\<close>:
  \<^verbatim>\<open>max<uint32_t>(minGapMs, (uint32_t)(durationMs + pauseMs + 50))\<close>
\<close>

definition requiredGap :: "PulseManager \<Rightarrow> u32" where
  "requiredGap pm = max (minGapMs pm) (word_of_int (durationMs pm + pauseMs pm + 50))"

text \<open>
  \<open>PulseManager::triggerPulse\<close>. The elapsed time \<open>now - lastTrigMs\<close> is an unsigned
  32-bit subtraction and wraps. The result is the returned flag together with the new
  object and hardware state.
\<close>

definition triggerPulse :: "bool \<Rightarrow> PulseManager \<Rightarrow> hw \<Rightarrow> bool \<times> PulseManager \<times> hw" where
  "triggerPulse allowBurst pm h =
     (let now = millis h in
      if \<not> allowBurst \<and> now - lastTrigMs pm < requiredGap pm then (False, pm, h)
      else
        let h1 = (if lastWasA pm then pulseB pm h else pulseA pm h);
            pm1 = pm\<lparr>lastWasA := \<not> lastWasA pm\<rparr>;
            pm2 = pm1\<lparr>lastTrigMs := millis h1\<rparr>
        in (True, pm2, h1))"

text \<open>
  A client of the pulse driver: any interleaving of trigger calls (with either burst flag),
  reconfiguration and elapsing time. \<open>pm_run\<close> collects the value returned by each trigger
  call. The diagnostic entry points \<open>forceA\<close>/\<open>forceB\<close> are not called anywhere in the
  controller and are not part of a run.
\<close>

datatype pm_call = Trigger bool | SetImpulseTiming int int | SetMinGapMs u32 | Elapse u32

fun pm_run :: "pm_call list \<Rightarrow> PulseManager \<Rightarrow> hw \<Rightarrow> bool list \<times> PulseManager \<times> hw" where
  "pm_run [] pm h = ([], pm, h)"
| "pm_run (Trigger b # cs) pm h =
     (case triggerPulse b pm h of (r, pm1, h1) \<Rightarrow>
        (case pm_run cs pm1 h1 of (rs, pm2, h2) \<Rightarrow> (r # rs, pm2, h2)))"
| "pm_run (SetImpulseTiming d p # cs) pm h = pm_run cs (setImpulseTiming d p pm) h"
| "pm_run (SetMinGapMs g # cs) pm h = pm_run cs (setMinGapMs g pm) h"
| "pm_run (Elapse ms # cs) pm h = pm_run cs pm (delay ms h)"

text \<open>The sequence A, B, A, B, ... continued from a given "last was A" flag.\<close>

fun alternation :: "bool \<Rightarrow> nat \<Rightarrow> polarity list" where
  "alternation wasA 0 = []"
| "alternation wasA (Suc n) = (if wasA then PolB else PolA) # alternation (\<not> wasA) n"

definition accepted :: "bool list \<Rightarrow> nat" where
  "accepted rs = length (filter (\<lambda>r. r) rs)"

section \<open>DateTime and text formatting\<close>

text \<open>
  \<open>DateTime\<close> is the value class of the RTC library: six unsigned 8-bit fields, the year
  stored as an offset from 2000. \<open>DateTime_of\<close> is its six-argument constructor, which
  truncates each \<open>int\<close> argument to its field.
\<close>

record DateTime =
  year :: nat
  month :: nat
  day :: nat
  hour :: nat
  minute :: nat
  second :: nat

definition u8_of :: "int \<Rightarrow> nat" where
  "u8_of i = nat (i mod 256)"

definition DateTime_of :: "int \<Rightarrow> int \<Rightarrow> int \<Rightarrow> int \<Rightarrow> int \<Rightarrow> int \<Rightarrow> DateTime" where
  "DateTime_of y M d h m s =
     \<lparr>year = 2000 + u8_of (if 2000 \<le> y then y - 2000 else y),
      month = u8_of M, day = u8_of d, hour = u8_of h, minute = u8_of m, second = u8_of s\<rparr>"

text \<open>\<open>SystemManager::minutesOfDay\<close>: \<open>dt.hour() * 60 + dt.minute()\<close>.\<close>

definition minutesOfDay :: "DateTime \<Rightarrow> int" where
  "minutesOfDay dt = int (hour dt) * 60 + int (minute dt)"

text \<open>Decimal digits, and the \<open>printf\<close> conversion \<open>%02d\<close>.\<close>

definition digit_char :: "nat \<Rightarrow> char" where
  "digit_char n = ''0123456789'' ! (n mod 10)"

fun dec :: "nat \<Rightarrow> string" where
  "dec n = (if n < 10 then [digit_char n] else dec (n div 10) @ [digit_char n])"

declare dec.simps [simp del]

definition fmt02d :: "int \<Rightarrow> string" where
  "fmt02d i =
     (let s = (if i < 0 then CHR ''-'' # dec (nat (- i)) else dec (nat i))
      in if length s < 2 then CHR ''0'' # s else s)"

text \<open>
  \<open>snprintf(buf, 6, "%02d:%02d", h, m)\<close>: at most five characters are stored in the
  six-byte buffer.
\<close>

definition hhmm :: "int \<Rightarrow> int \<Rightarrow> string" where
  "hhmm h m = take 5 (fmt02d h @ CHR '':'' # fmt02d m)"

text \<open>\<open>StateManager::formatDateTime\<close>.\<close>

definition formatDateTime :: "DateTime \<Rightarrow> string" where
  "formatDateTime dt = hhmm (int (hour dt)) (int (minute dt))"

section \<open>Scanning numbers: the two \<open>sscanf\<close> formats of the state file\<close>

text \<open>
  \<open>sscanf\<close> is modelled for the directives that occur: \<open>%d\<close> skips white space, then
  reads an optional sign and at least one decimal digit; an ordinary character must match
  the next input character; white space in the format skips any white space of the input.
  The result is the list of converted values up to the first failure, so the count that
  \<open>sscanf\<close> returns is its length. Converted values are not limited to 32 bits.
\<close>

datatype directive = Dint | Dlit char | Dspace

definition isspace :: "char \<Rightarrow> bool" where
  "isspace c = (c \<in> set [CHR '' '', CHR 0x09, CHR 0x0A, CHR 0x0B, CHR 0x0C, CHR 0x0D])"

definition isdigit :: "char \<Rightarrow> bool" where
  "isdigit c = (c \<in> set ''0123456789'')"

definition digit_val :: "char \<Rightarrow> int" where
  "digit_val c = int (of_char c) - 48"

definition digits_val :: "string \<Rightarrow> int" where
  "digits_val ds = foldl (\<lambda>acc c. acc * 10 + digit_val c) 0 ds"

definition scan_int :: "string \<Rightarrow> (int \<times> string) option" where
  "scan_int s =
     (let s1 = dropWhile isspace s;
          neg = (case s1 of [] \<Rightarrow> False | c # r \<Rightarrow> c = CHR ''-'');
          s2 = (case s1 of [] \<Rightarrow> [] | c # r \<Rightarrow> if c = CHR ''-'' \<or> c = CHR ''+'' then r else s1);
          ds = takeWhile isdigit s2
      in if ds = [] then None
         else Some (if neg then - digits_val ds else digits_val ds, dropWhile isdigit s2))"

fun sscanf :: "directive list \<Rightarrow> string \<Rightarrow> int list" where
  "sscanf [] s = []"
| "sscanf (Dint # fs) s =
     (case scan_int s of None \<Rightarrow> [] | Some (v, r) \<Rightarrow> v # sscanf fs r)"
| "sscanf (Dlit c # fs) s =
     (case s of [] \<Rightarrow> [] | x # r \<Rightarrow> if x = c then sscanf fs r else [])"
| "sscanf (Dspace # fs) s = sscanf fs (dropWhile isspace s)"

text \<open>The formats \<open>"%d-%d-%d %d:%d"\<close> and \<open>"%d:%d"\<close>.\<close>

definition fmt_date_time :: "directive list" where
  "fmt_date_time =
     [Dint, Dlit CHR ''-'', Dint, Dlit CHR ''-'', Dint, Dspace, Dint, Dlit CHR '':'', Dint]"

definition fmt_time :: "directive list" where
  "fmt_time = [Dint, Dlit CHR '':'', Dint]"

section \<open>StateManager: the state file on the SD card\<close>

text \<open>
  The SD card as far as the state file is concerned: the file's content if it exists, and
  whether opening it for reading, respectively for writing, succeeds. Opening for writing
  truncates (the source: "create/overwrite"), and \<open>println\<close> appends CR LF.
\<close>

record sdcard =
  state_file :: "string option"
  can_read :: bool
  can_write :: bool

definition println :: "string \<Rightarrow> string" where
  "println s = s @ [CHR 0x0D, CHR 0x0A]"

definition write_line :: "string \<Rightarrow> sdcard \<Rightarrow> sdcard" where
  "write_line s sd = (if can_write sd then sd\<lparr>state_file := Some (println s)\<rparr> else sd)"

definition readStringUntil :: "char \<Rightarrow> string \<Rightarrow> string" where
  "readStringUntil t content = takeWhile (\<lambda>c. c \<noteq> t) content"

definition valid_hm :: "int \<Rightarrow> int \<Rightarrow> bool" where
  "valid_hm h m = (0 \<le> h \<and> h < 24 \<and> 0 \<le> m \<and> m < 60)"

text \<open>
  \<open>StateManager::parseLine\<close>: the long format first, then the short one, and on failure
  the file is reset to \<open>00:00\<close> and midnight is returned. Each attempt is a scan that
  must convert all its fields, followed by the range check of hour and minute; the
  variables \<open>h\<close> and \<open>m\<close> are read only after a scan that has assigned both.
\<close>

definition scan_date_time :: "string \<Rightarrow> (int \<times> int) option" where
  "scan_date_time line =
     (case sscanf fmt_date_time line of
        [y, M, d, h, m] \<Rightarrow> if valid_hm h m then Some (h, m) else None
      | _ \<Rightarrow> None)"

definition scan_time :: "string \<Rightarrow> (int \<times> int) option" where
  "scan_time line =
     (case sscanf fmt_time line of
        [h, m] \<Rightarrow> if valid_hm h m then Some (h, m) else None
      | _ \<Rightarrow> None)"

definition parseLine :: "string \<Rightarrow> sdcard \<Rightarrow> DateTime \<times> sdcard" where
  "parseLine line sd =
     (case scan_date_time line of
        Some (h, m) \<Rightarrow> (DateTime_of 2000 1 1 h m 0, sd)
      | None \<Rightarrow>
          (case scan_time line of
             Some (h, m) \<Rightarrow> (DateTime_of 2000 1 1 h m 0, sd)
           | None \<Rightarrow> (DateTime_of 2000 1 1 0 0 0, write_line ''00:00'' sd)))"

text \<open>
  \<open>StateManager::loadLastKnownClockTime\<close>. \<open>tmnow\<close> is the result of \<open>localtime\<close>
  (hour and minute of the system clock), \<open>None\<close> for a null pointer.
\<close>

definition loadLastKnownClockTime :: "(int \<times> int) option \<Rightarrow> sdcard \<Rightarrow> DateTime \<times> sdcard" where
  "loadLastKnownClockTime tmnow sd =
     (case state_file sd of
        None \<Rightarrow>
          (let h = (case tmnow of Some (th, tm) \<Rightarrow> th | None \<Rightarrow> 0);
               m = (case tmnow of Some (th, tm) \<Rightarrow> tm | None \<Rightarrow> 0)
           in (DateTime_of 2000 1 1 h m 0, write_line (hhmm h m) sd))
      | Some content \<Rightarrow>
          if \<not> can_read sd then (DateTime_of 2000 1 1 0 0 0, write_line ''00:00'' sd)
          else parseLine (readStringUntil (CHR 0x0A) content) sd)"

text \<open>\<open>StateManager::saveClockTime\<close>: the flag returned, and the card afterwards.\<close>

definition saveClockTime :: "DateTime \<Rightarrow> sdcard \<Rightarrow> bool \<times> sdcard" where
  "saveClockTime dt sd =
     (if \<not> can_write sd then (False, sd)
      else (True, sd\<lparr>state_file := Some (println (formatDateTime dt))\<rparr>))"

section \<open>Configuration, log and time readings\<close>

text \<open>The fields of \<open>struct Config\<close> that the engine reads.\<close>

record Config =
  mode :: string
  impulseDelayMs :: int
  resyncRtcIfDiffSeconds :: int
  maxCatchupMinutes :: int
  ntpResyncEveryMinutes :: int

text \<open>
  The logger receives a severity and a message. The messages of the engine are kept as
  events carrying the numbers and strings that the source formats into the text.
\<close>

datatype level = LInfo | LWarn | LError

datatype log_event =
    RtcInitFailed
  | TzBeforeAfter int int
  | NtpBootCorrection u32
  | NtpNoBootCorrection
  | BootState string string int
  | DstAlignedAtBoot
  | SystemReady
  | NtpDstAligned
  | NtpCorrected u32
  | ClocksUpToDate
  | CatchupExceedsLimit int
  | CatchupStart int string u32
  | CatchupRemaining int
  | CatchupFinished
  | PulseSkipped
  | PulseFor string

text \<open>
  What the wall clocks show when the engine reads them: the system clock in local time
  (\<open>SystemLocalNow()\<close>) and the RTC (\<open>rtcManager->now()\<close>). Each read of the source takes
  such a reading as an argument.
\<close>

record clocks =
  sysLocalNow :: DateTime
  rtcNow :: DateTime

section \<open>SystemManager\<close>

text \<open>
  The engine's own fields (SystemManager.h) together with the collaborators it owns
  pointers to: the hardware, the pulse driver, the state file and the log.
\<close>

record world =
  hardware :: hw
  pulseManager :: PulseManager
  stateManager :: sdcard
  logger :: "(level \<times> log_event) list"
  lastImpulseMinutes :: int
  lastNtpSyncMs :: u32
  catchupActive :: bool
  catchupRemaining :: int
  catchupLastPulseMs :: u32
  catchupIntervalMs :: u32

definition log_info :: "log_event \<Rightarrow> world \<Rightarrow> world" where
  "log_info e w = w\<lparr>logger := logger w @ [(LInfo, e)]\<rparr>"

definition log_error :: "log_event \<Rightarrow> world \<Rightarrow> world" where
  "log_error e w = w\<lparr>logger := logger w @ [(LError, e)]\<rparr>"

definition save_state :: "DateTime \<Rightarrow> world \<Rightarrow> world" where
  "save_state dt w = w\<lparr>stateManager := snd (saveClockTime dt (stateManager w))\<rparr>"

text \<open>
  The two values the engine persists: the hand position
  (\<open>DateTime(2000, 1, 1, lastImpulseMinutes / 60, lastImpulseMinutes % 60, 0)\<close>) and a
  clock reading (\<open>DateTime(2000, 1, 1, now.hour(), now.minute(), 0)\<close>).
\<close>

definition hand_dt :: "int \<Rightarrow> DateTime" where
  "hand_dt m = DateTime_of 2000 1 1 (m sdiv 60) (m smod 60) 0"

definition now_dt :: "DateTime \<Rightarrow> DateTime" where
  "now_dt now = DateTime_of 2000 1 1 (int (hour now)) (int (minute now)) 0"

text \<open>\<open>isAuto ? SystemLocalNow() : rtcManager->now()\<close>\<close>

definition read_now :: "Config \<Rightarrow> clocks \<Rightarrow> DateTime" where
  "read_now cfg c = (if mode cfg = ''auto'' then sysLocalNow c else rtcNow c)"

text \<open>\<open>SystemManager::startCatchUp\<close>\<close>

definition startCatchUp :: "Config \<Rightarrow> int \<Rightarrow> string \<Rightarrow> world \<Rightarrow> world" where
  "startCatchUp cfg diffMinutes reason w =
     (let w1 = w\<lparr>catchupRemaining := diffMinutes\<rparr>;
          w2 = w1\<lparr>catchupIntervalMs := word_of_int (impulseDelayMs cfg) + 150 + 50\<rparr>;
          w3 = w2\<lparr>catchupLastPulseMs := 0\<rparr>;
          w4 = w3\<lparr>catchupActive := True\<rparr>
      in log_info (CatchupStart diffMinutes reason (catchupIntervalMs w4)) w4)"

text \<open>\<open>SystemManager::tryStartCatchUp\<close>, the gate used at boot and after an NTP correction.\<close>

definition tryStartCatchUp :: "Config \<Rightarrow> string \<Rightarrow> clocks \<Rightarrow> world \<Rightarrow> world" where
  "tryStartCatchUp cfg reason c w =
     (if catchupActive w then w
      else
        let now = read_now cfg c;
            realMin = minutesOfDay now;
            diff = diffForwardMinutes (lastImpulseMinutes w) realMin
        in if diff = 0 then log_info ClocksUpToDate w
           else
             let maxCatch = maxCatchupMinutes cfg
             in if diff > maxCatch then log_error (CatchupExceedsLimit diff) w
                else startCatchUp cfg diff reason w)"

definition doCatchUpIfNeeded :: "Config \<Rightarrow> clocks \<Rightarrow> world \<Rightarrow> world" where
  "doCatchUpIfNeeded cfg c w = tryStartCatchUp cfg ''boot'' c w"

text \<open>
  \<open>SystemManager::tickCatchUp\<close>. The reading \<open>c\<close> is consulted only when the session
  finishes (the re-sampled "now").
\<close>

definition tickCatchUp :: "Config \<Rightarrow> clocks \<Rightarrow> world \<Rightarrow> world" where
  "tickCatchUp cfg c w =
     (if \<not> catchupActive w then w
      else
        let nowMs = millis (hardware w)
        in if catchupLastPulseMs w = 0 \<or> nowMs - catchupLastPulseMs w \<ge> catchupIntervalMs w then
             (case triggerPulse True (pulseManager w) (hardware w) of
                (sent, pm1, h1) \<Rightarrow>
                  let w1 = w\<lparr>pulseManager := pm1, hardware := h1\<rparr>
                  in if \<not> sent then w1
                     else
                       let w2 = w1\<lparr>catchupLastPulseMs := millis (hardware w1)\<rparr>;
                           w3 = w2\<lparr>lastImpulseMinutes := (lastImpulseMinutes w2 + 1) smod 1440\<rparr>;
                           w4 = save_state (hand_dt (lastImpulseMinutes w3)) w3;
                           w5 = log_info (CatchupRemaining (catchupRemaining w4 - 1)) w4;
                           w6 = w5\<lparr>catchupRemaining := catchupRemaining w5 - 1\<rparr>
                       in if catchupRemaining w6 \<le> 0 then
                            let w7 = w6\<lparr>catchupActive := False\<rparr>;
                                w8 = log_info CatchupFinished w7;
                                now = read_now cfg c;
                                w9 = w8\<lparr>lastImpulseMinutes := minutesOfDay now\<rparr>
                            in save_state (now_dt now) w9
                          else w6)
           else w)"

text \<open>\<open>SystemManager::checkMinuteChange\<close>, the regular minute tick.\<close>

definition checkMinuteChange :: "Config \<Rightarrow> clocks \<Rightarrow> world \<Rightarrow> world" where
  "checkMinuteChange cfg c w =
     (if catchupActive w then w
      else
        let now = read_now cfg c;
            nowMin = minutesOfDay now
        in if nowMin \<noteq> lastImpulseMinutes w then
             (case triggerPulse False (pulseManager w) (hardware w) of
                (sent, pm1, h1) \<Rightarrow>
                  let w1 = w\<lparr>pulseManager := pm1, hardware := h1\<rparr>
                  in if \<not> sent then log_info PulseSkipped w1
                     else
                       let w2 = log_info
                                  (PulseFor (hhmm (int (hour now)) (int (minute now)))) w1;
                           w3 = w2\<lparr>lastImpulseMinutes := nowMin\<rparr>
                       in save_state (now_dt now) w3)
           else w)"

text \<open>
  What a forced NTP re-synchronisation shows to the engine. \<open>syncWithNtp\<close> itself only
  talks to the time source; the engine observes the time the call took, and the system
  clock (\<open>time()\<close>, \<open>tm_isdst\<close>) sampled before and after it.
\<close>

record resync =
  sync_ms :: u32
  isdst_before :: int
  isdst_after :: int
  sys_before :: int
  sys_after :: int

text \<open>\<open>(ltBefore.tm_isdst != ltAfter.tm_isdst)\<close>\<close>

definition dstFlip :: "resync \<Rightarrow> bool" where
  "dstFlip r = (isdst_before r \<noteq> isdst_after r)"

text \<open>\<open>(uint32_t) llabs((long long)(sysAfter - sysBefore))\<close>\<close>

definition sysDelta :: "resync \<Rightarrow> u32" where
  "sysDelta r = word_of_int \<bar>sys_after r - sys_before r\<bar>"

text \<open>
  The condition under which both \<open>begin\<close> and \<open>loop\<close> realign without catch-up:
  \<^verbatim>\<open>dstFlip && sysDelta >= 55*60 && sysDelta <= 65*60\<close>
\<close>

definition dstShiftDetected :: "resync \<Rightarrow> bool" where
  "dstShiftDetected r = (dstFlip r \<and> sysDelta r \<ge> 55 * 60 \<and> sysDelta r \<le> 65 * 60)"

text \<open>
  The inputs of one pass of \<open>loop\<close>: the clock readings taken by the minute tick, by the
  catch-up engine, after a re-synchronisation and by the catch-up gate, and the
  re-synchronisation itself.
\<close>

record loop_in =
  tick_clocks :: clocks
  catchup_clocks :: clocks
  ntp :: resync
  after_clocks :: clocks
  gate_clocks :: clocks

text \<open>
  \<open>SystemManager::loop\<close> from the read of the configuration on: the periodic NTP
  re-synchronisation of AUTO mode.
\<close>

definition loop_ntp :: "Config \<Rightarrow> loop_in \<Rightarrow> world \<Rightarrow> world" where
  "loop_ntp cfg inp w =
     (if mode cfg \<noteq> ''auto'' then w
      else
        let SYNC_EVERY_MS = (word_of_int (ntpResyncEveryMinutes cfg) :: u32) * 60 * 1000
        in if SYNC_EVERY_MS = 0 then w
           else
             let nowMs = millis (hardware w)
             in if nowMs - lastNtpSyncMs w < SYNC_EVERY_MS then w
                else
                  let w1 = w\<lparr>lastNtpSyncMs := nowMs\<rparr>;
                      w2 = w1\<lparr>hardware := delay 200 (delay (sync_ms (ntp inp)) (hardware w1))\<rparr>;
                      w3 = log_info
                             (TzBeforeAfter (isdst_before (ntp inp)) (isdst_after (ntp inp))) w2
                  in if sysDelta (ntp inp) = 0 then w3
                     else if dstShiftDetected (ntp inp) then
                       let after = sysLocalNow (after_clocks inp);
                           nowMin = minutesOfDay after;
                           w4 = w3\<lparr>lastImpulseMinutes := nowMin\<rparr>;
                           w5 = save_state (now_dt after) w4
                       in log_info NtpDstAligned w5
                     else if sysDelta (ntp inp) \<ge> word_of_int (resyncRtcIfDiffSeconds cfg) then
                       tryStartCatchUp cfg ''ntp-resync'' (gate_clocks inp)
                         (log_info (NtpCorrected (sysDelta (ntp inp))) w3)
                     else w3)"

text \<open>\<open>SystemManager::loop\<close>: minute tick, catch-up engine, periodic NTP.\<close>

definition loop :: "Config \<Rightarrow> loop_in \<Rightarrow> world \<Rightarrow> world" where
  "loop cfg inp w =
     loop_ntp cfg inp
       (tickCatchUp cfg (catchup_clocks inp) (checkMinuteChange cfg (tick_clocks inp) w))"

text \<open>
  The inputs of \<open>begin\<close>: whether the RTC/time-zone initialisation succeeded, the boot-time
  synchronisation, the result of \<open>localtime\<close> used when the state file is missing, and the
  clock readings taken for the comparison and by the catch-up gate.
\<close>

record boot_in =
  rtcInitOk :: bool
  boot_ntp :: resync
  boot_tm :: "(int \<times> int) option"
  boot_clocks :: clocks
  boot_gate_clocks :: clocks

text \<open>
  \<open>SystemManager::begin\<close> from the boot-time synchronisation on. The time-zone and RTC
  set-up before it touches neither the engine's fields nor the collaborators modelled
  here; its outcome is \<open>rtcInitOk\<close>. The function is given in two parts, split at the call
  of \<open>doCatchUpIfNeeded\<close>: \<open>begin_align\<close> loads the state file, compares it with the
  clock, applies the DST guard and configures the pulse driver.
\<close>

definition boot_now :: "Config \<Rightarrow> boot_in \<Rightarrow> DateTime" where
  "boot_now cfg inp =
     (if mode cfg = ''auto'' then sysLocalNow (boot_clocks inp)
      else if rtcInitOk inp then rtcNow (boot_clocks inp)
      else sysLocalNow (boot_clocks inp))"

definition begin_align :: "Config \<Rightarrow> boot_in \<Rightarrow> world \<Rightarrow> world" where
  "begin_align cfg inp w =
     (let isAuto = (mode cfg = ''auto'');
          w0 = (if \<not> rtcInitOk inp then log_error RtcInitFailed w else w);
          w1 = (if isAuto
                then w0\<lparr>hardware := delay 200 (delay (sync_ms (boot_ntp inp)) (hardware w0))\<rparr>
                else w0);
          w2 = log_info
                 (TzBeforeAfter (isdst_before (boot_ntp inp)) (isdst_after (boot_ntp inp))) w1;
          w3 = (if sysDelta (boot_ntp inp) \<ge> word_of_int (resyncRtcIfDiffSeconds cfg)
                then log_info (NtpBootCorrection (sysDelta (boot_ntp inp))) w2
                else log_info NtpNoBootCorrection w2);
          loaded = loadLastKnownClockTime (boot_tm inp) (stateManager w3);
          stateDt = fst loaded;
          w4 = w3\<lparr>stateManager := snd loaded\<rparr>;
          nowDt = boot_now cfg inp;
          w5 = w4\<lparr>lastImpulseMinutes := minutesOfDay stateDt\<rparr>;
          bootDiff = diffForwardMinutes (lastImpulseMinutes w5) (minutesOfDay nowDt);
          w6 = log_info
                 (BootState (hhmm (int (hour stateDt)) (int (minute stateDt)))
                            (hhmm (int (hour nowDt)) (int (minute nowDt))) bootDiff) w5;
          w7 = (if dstShiftDetected (boot_ntp inp) then
                  let nowMin = minutesOfDay nowDt;
                      wa = w6\<lparr>lastImpulseMinutes := nowMin\<rparr>;
                      wb = save_state (now_dt nowDt) wa
                  in log_info DstAlignedAtBoot wb
                else w6);
          w8 = w7\<lparr>pulseManager := setImpulseTiming (impulseDelayMs cfg) 150 (pulseManager w7)\<rparr>;
          minGap0 = (word_of_int (impulseDelayMs cfg) :: u32) + 150 + 50;
          minGap = (if minGap0 < 600 then 600 else minGap0)
      in w8\<lparr>pulseManager := setMinGapMs minGap (pulseManager w8)\<rparr>)"

definition SystemManager_begin :: "Config \<Rightarrow> boot_in \<Rightarrow> world \<Rightarrow> world" where
  "SystemManager_begin cfg inp w =
     (let w9 = begin_align cfg inp w;
          w10 = doCatchUpIfNeeded cfg (boot_gate_clocks inp) w9;
          w11 = w10\<lparr>lastNtpSyncMs := millis (hardware w10)\<rparr>
      in log_info SystemReady w11)"

text \<open>
  A run of the catch-up engine: between two calls of \<open>tickCatchUp\<close> some time passes in
  the rest of the main loop, and each call has its own clock reading. \<open>catchup_run\<close> is the
  state after the calls; \<open>catchup_pulses\<close> lists the readings of exactly those calls during which
  the bridge was driven, that is, whose pulse was accepted. \<open>gate_open\<close> is the pacing
  condition of \<open>tickCatchUp\<close>.
\<close>

definition elapse :: "u32 \<Rightarrow> world \<Rightarrow> world" where
  "elapse ms w = w\<lparr>hardware := delay ms (hardware w)\<rparr>"

definition gate_open :: "world \<Rightarrow> bool" where
  "gate_open w =
     (catchupLastPulseMs w = 0
      \<or> millis (hardware w) - catchupLastPulseMs w \<ge> catchupIntervalMs w)"

fun catchup_run :: "Config \<Rightarrow> (u32 \<times> clocks) list \<Rightarrow> world \<Rightarrow> world" where
  "catchup_run cfg [] w = w"
| "catchup_run cfg ((ms, c) # ins) w = catchup_run cfg ins (tickCatchUp cfg c (elapse ms w))"

definition pulsed :: "world \<Rightarrow> world \<Rightarrow> bool" where
  "pulsed w w' = (emitted (hardware w') \<noteq> emitted (hardware w))"

fun catchup_pulses :: "Config \<Rightarrow> (u32 \<times> clocks) list \<Rightarrow> world \<Rightarrow> clocks list" where
  "catchup_pulses cfg [] w = []"
| "catchup_pulses cfg ((ms, c) # ins) w =
     (if pulsed (elapse ms w) (tickCatchUp cfg c (elapse ms w))
      then c # catchup_pulses cfg ins (tickCatchUp cfg c (elapse ms w))
      else catchup_pulses cfg ins (tickCatchUp cfg c (elapse ms w)))"

section \<open>Initial values and sample inputs\<close>

text \<open>\<open>ConfigManager::applyDefaults\<close>, restricted to the fields of \<open>Config\<close> above.\<close>

definition applyDefaults :: Config where
  "applyDefaults =
     \<lparr>mode = ''auto'', impulseDelayMs = 500, resyncRtcIfDiffSeconds = 60,
      maxCatchupMinutes = 180, ntpResyncEveryMinutes = 15\<rparr>"

text \<open>
  A freshly constructed engine (the in-class initialisers of SystemManager.h and
  PulseManager.h) with idle outputs, an empty log and a writable card without state file.
\<close>

definition SystemManager_new :: world where
  "SystemManager_new =
     \<lparr>hardware = \<lparr>clock_ms = 0, in1 = False, in2 = False, writes = []\<rparr>,
      pulseManager = PulseManager_new,
      stateManager = \<lparr>state_file = None, can_read = True, can_write = True\<rparr>,
      logger = [],
      lastImpulseMinutes = - 1,
      lastNtpSyncMs = 0,
      catchupActive = False,
      catchupRemaining = 0,
      catchupLastPulseMs = 0,
      catchupIntervalMs = 0\<rparr>"

text \<open>Both wall clocks showing \<open>h:m\<close> on some day.\<close>

definition clocks_at :: "int \<Rightarrow> int \<Rightarrow> clocks" where
  "clocks_at h m =
     \<lparr>sysLocalNow = DateTime_of 2025 6 1 h m 0, rtcNow = DateTime_of 2025 6 1 h m 0\<rparr>"

text \<open>
  An idle engine whose hands stand at minute \<open>m\<close>, \<open>ms\<close> milliseconds after start-up, and
  the inputs of a pass of the main loop in which every read shows the same clocks.
\<close>

definition idle_at :: "int \<Rightarrow> u32 \<Rightarrow> world" where
  "idle_at m ms =
     SystemManager_new
       \<lparr>hardware := \<lparr>clock_ms = ms, in1 = False, in2 = False, writes = []\<rparr>,
        lastImpulseMinutes := m\<rparr>"

definition pass_at :: "clocks \<Rightarrow> resync \<Rightarrow> loop_in" where
  "pass_at c r =
     \<lparr>tick_clocks = c, catchup_clocks = c, ntp = r, after_clocks = c, gate_clocks = c\<rparr>"

text \<open>
  The time that \<open>RTCManager::getNtpTime\<close> returns when no time could be obtained:
  \<open>DateTime(2000, 1, 1, 0, 0, 0)\<close>.
\<close>

definition ntp_sentinel :: DateTime where
  "ntp_sentinel = DateTime_of 2000 1 1 0 0 0"

section \<open>Facts about truncating remainder\<close>

lemma smod_nonneg_eq_mod:
  fixes k :: int
  assumes "0 \<le> k" and "0 < l"
  shows "k smod l = k mod l"
  using assms by (simp add: signed_modulo_int_def sgn_if)

lemma smod_1440_bounds:
  fixes k :: int
  shows "- 1440 < k smod 1440" and "k smod 1440 < 1440"
proof -
  have b: "\<bar>k\<bar> mod 1440 < 1440" "0 \<le> \<bar>k\<bar> mod 1440"
    by simp_all
  have "k smod 1440 = \<bar>k\<bar> mod 1440 \<or> k smod 1440 = - (\<bar>k\<bar> mod 1440) \<or> k smod 1440 = 0"
    by (simp add: signed_modulo_int_def sgn_if)
  then show "- 1440 < k smod 1440" and "k smod 1440 < 1440"
    using b by linarith+
qed

lemma smod_1440_cong_mod:
  fixes k :: int
  shows "(k smod 1440 + 1440) mod 1440 = k mod 1440"
proof (cases "0 \<le> k")
  case True
  then show ?thesis by (simp add: smod_nonneg_eq_mod)
next
  case False
  then have neg: "k < 0" by simp
  then have "k smod 1440 = - ((- k) mod 1440)"
    by (simp add: signed_modulo_int_def sgn_if)
  then have "(k smod 1440 + 1440) mod 1440 = (- ((- k) mod 1440)) mod 1440"
    by simp
  also have "\<dots> = (- (- k)) mod 1440"
    by (rule mod_minus_eq)
  finally show ?thesis by simp
qed

lemma diffForwardMinutes_eq_mod:
  "diffForwardMinutes a b = (b - a) mod 1440"
proof -
  let ?r = "(b - a) smod 1440"
  have nonneg: "0 \<le> ?r + 1440"
    using smod_1440_bounds(1) [of "b - a"] by simp
  have "diffForwardMinutes a b = (?r + 1440) mod 1440"
    unfolding diffForwardMinutes_def using nonneg by (simp add: smod_nonneg_eq_mod)
  then show ?thesis by (simp only: smod_1440_cong_mod)
qed

lemma diffForwardMinutes_range:
  "0 \<le> diffForwardMinutes a b" "diffForwardMinutes a b < 1440"
  by (simp_all add: diffForwardMinutes_eq_mod)

section \<open>Forward difference\<close>

text \<open>
  C9. For all \<open>a\<close>, \<open>b\<close> in \<open>[0, 1439]\<close> the forward difference computed by
  \<open>diffForwardMinutes a b\<close> equals \<open>(b - a + 1440) mod 1440\<close>, lies in \<open>[0, 1439]\<close>,
  and \<open>diffForwardMinutes a a = 0\<close>.
\<close>

theorem diffForwardMinutes_spec:
  assumes "0 \<le> a" "a \<le> 1439" "0 \<le> b" "b \<le> 1439"
  shows "diffForwardMinutes a b = (b - a + 1440) mod 1440
       \<and> 0 \<le> diffForwardMinutes a b \<and> diffForwardMinutes a b \<le> 1439
       \<and> diffForwardMinutes a a = 0"
proof -
  have "diffForwardMinutes a b = (b - a + 1440) mod 1440"
    by (simp add: diffForwardMinutes_eq_mod)
  moreover have "0 \<le> diffForwardMinutes a b"
    by (rule diffForwardMinutes_range)
  moreover have "diffForwardMinutes a b \<le> 1439"
    using diffForwardMinutes_range(2) [of a b] by simp
  moreover have "diffForwardMinutes a a = 0"
    by (simp add: diffForwardMinutes_eq_mod)
  ultimately show ?thesis by simp
qed

theorem diffForwardMinutes_spec_witness:
  "(0::int) \<le> 1430 \<and> (1430::int) \<le> 1439 \<and> (0::int) \<le> 5 \<and> (5::int) \<le> 1439
   \<and> diffForwardMinutes 1430 5 = 15 \<and> diffForwardMinutes 1430 1430 = 0"
  using diffForwardMinutes_spec [of 1430 5] by simp

section \<open>The pulse driver: guard and alternation\<close>

lemma emitted_digitalWrite:
  "emitted (digitalWrite p v h) = emitted h @ drive_of (p, v)"
  by (cases p) (simp_all add: emitted_def)

lemma emitted_delay [simp]: "emitted (delay ms h) = emitted h"
  by (simp add: emitted_def delay_def)

lemma emitted_pulseA: "emitted (pulseA pm h) = emitted h @ [PolA]"
  by (simp add: pulseA_def stopBridge_def emitted_digitalWrite del: digitalWrite.simps)

lemma emitted_pulseB: "emitted (pulseB pm h) = emitted h @ [PolB]"
  by (simp add: pulseB_def stopBridge_def emitted_digitalWrite del: digitalWrite.simps)

text \<open>A trigger call either is rejected and changes nothing, or emits the next polarity.\<close>

lemma triggerPulse_cases:
  "triggerPulse b pm h = (False, pm, h) \<or>
   (\<exists>pm' h'. triggerPulse b pm h = (True, pm', h')
           \<and> lastWasA pm' = (\<not> lastWasA pm)
           \<and> emitted h' = emitted h @ [if lastWasA pm then PolB else PolA])"
  by (auto simp add: triggerPulse_def Let_def emitted_pulseA emitted_pulseB)

lemma triggerPulse_open:
  assumes "b \<or> \<not> millis h - lastTrigMs pm < requiredGap pm"
  shows "\<exists>pm' h'. triggerPulse b pm h = (True, pm', h')
           \<and> lastWasA pm' = (\<not> lastWasA pm)
           \<and> emitted h' = emitted h @ [if lastWasA pm then PolB else PolA]"
  using assms by (auto simp add: triggerPulse_def Let_def emitted_pulseA emitted_pulseB)

lemma pm_run_alternation:
  "pm_run cs pm h = (rs, pm', h') \<Longrightarrow>
     emitted h' = emitted h @ alternation (lastWasA pm) (accepted rs)
   \<and> lastWasA pm' = (lastWasA pm \<noteq> odd (accepted rs))"
proof (induction cs pm h arbitrary: rs pm' h' rule: pm_run.induct)
  case (1 pm h)
  then show ?case by (simp add: accepted_def)
next
  case (2 b cs pm h)
  obtain r pm1 h1 where t: "triggerPulse b pm h = (r, pm1, h1)"
    by (cases "triggerPulse b pm h") auto
  obtain rs2 pm2 h2 where run: "pm_run cs pm1 h1 = (rs2, pm2, h2)"
    by (cases "pm_run cs pm1 h1") auto
  from "2.prems" t run have eqs: "rs = r # rs2" "pm' = pm2" "h' = h2" by simp_all
  have ih: "emitted h2 = emitted h1 @ alternation (lastWasA pm1) (accepted rs2)
     \<and> lastWasA pm2 = (lastWasA pm1 \<noteq> odd (accepted rs2))"
    using "2.IH" [OF t [symmetric] refl run] .
  from triggerPulse_cases [of b pm h] t
  consider (rej) "r = False" "pm1 = pm" "h1 = h"
    | (acc) "r = True" "lastWasA pm1 = (\<not> lastWasA pm)"
        "emitted h1 = emitted h @ [if lastWasA pm then PolB else PolA]"
    by auto
  then show ?case
  proof cases
    case rej
    with ih eqs show ?thesis by (simp add: accepted_def)
  next
    case acc
    with ih eqs show ?thesis by (auto simp add: accepted_def)
  qed
next
  case (3 d p cs pm h)
  then show ?case by (simp add: setImpulseTiming_def)
next
  case (4 g cs pm h)
  then show ?case by (simp add: setMinGapMs_def)
next
  case (5 ms cs pm h)
  then show ?case by simp
qed

text \<open>
  C5. A call \<open>triggerPulse(false)\<close> made less than
  \<open>requiredGap = max(minGapMs, durationMs + pauseMs + 50)\<close> milliseconds after the last
  accepted pulse returns false and has no side effect: the driver object (stored polarity,
  last-pulse time stamp) and the hardware (no write to the outputs) are unchanged.
\<close>

theorem triggerPulse_guard_no_side_effect:
  assumes "millis h - lastTrigMs pm < requiredGap pm"
  shows "requiredGap pm = max (minGapMs pm) (word_of_int (durationMs pm + pauseMs pm + 50))
       \<and> triggerPulse False pm h = (False, pm, h)"
  using assms by (simp add: triggerPulse_def requiredGap_def)

theorem triggerPulse_guard_no_side_effect_witness:
  "millis \<lparr>clock_ms = 1300, in1 = False, in2 = False, writes = []\<rparr>
     - lastTrigMs (PulseManager_new\<lparr>lastWasA := True, lastTrigMs := 1000\<rparr>)
     < requiredGap (PulseManager_new\<lparr>lastWasA := True, lastTrigMs := 1000\<rparr>)
   \<and> requiredGap (PulseManager_new\<lparr>lastWasA := True, lastTrigMs := 1000\<rparr>) = 600
   \<and> triggerPulse False (PulseManager_new\<lparr>lastWasA := True, lastTrigMs := 1000\<rparr>)
        \<lparr>clock_ms = 1300, in1 = False, in2 = False, writes = []\<rparr>
      = (False, PulseManager_new\<lparr>lastWasA := True, lastTrigMs := 1000\<rparr>,
         \<lparr>clock_ms = 1300, in1 = False, in2 = False, writes = []\<rparr>)"
proof -
  have gap: "requiredGap (PulseManager_new\<lparr>lastWasA := True, lastTrigMs := 1000\<rparr>) = 600"
    by (simp add: requiredGap_def PulseManager_new_def)
  have h: "millis \<lparr>clock_ms = 1300, in1 = False, in2 = False, writes = []\<rparr>
     - lastTrigMs (PulseManager_new\<lparr>lastWasA := True, lastTrigMs := 1000\<rparr>)
     < requiredGap (PulseManager_new\<lparr>lastWasA := True, lastTrigMs := 1000\<rparr>)"
    by (simp add: gap millis_def)
  from triggerPulse_guard_no_side_effect [OF h] gap h show ?thesis by simp
qed

text \<open>
  C6. After \<open>begin\<close>, whatever the client does (trigger calls with or without burst,
  reconfiguration, waiting), the polarities emitted are A, B, A, B, ... with one polarity
  per accepted call; the stored polarity flips with each of them; and a call that the guard
  lets through returns true, flips the stored polarity and emits the polarity opposite to
  the one last emitted.
\<close>

theorem triggerPulse_alternation:
  assumes "pm_run cs (fst (PulseManager_begin pm0 h0)) (snd (PulseManager_begin pm0 h0))
             = (rs, pm', h')"
  shows "emitted h' = emitted h0 @ alternation False (accepted rs)
       \<and> lastWasA pm' = odd (accepted rs)
       \<and> (\<forall>b pm h. b \<or> \<not> millis h - lastTrigMs pm < requiredGap pm \<longrightarrow>
            (\<exists>pm1 h1. triggerPulse b pm h = (True, pm1, h1)
                 \<and> lastWasA pm1 = (\<not> lastWasA pm)
                 \<and> emitted h1 = emitted h @ [if lastWasA pm then PolB else PolA]))"
proof -
  have e0: "emitted (snd (PulseManager_begin pm0 h0)) = emitted h0"
    by (simp add: PulseManager_begin_def emitted_digitalWrite del: digitalWrite.simps)
  have l0: "lastWasA (fst (PulseManager_begin pm0 h0)) = False"
    by (simp add: PulseManager_begin_def)
  from pm_run_alternation [OF assms] e0 l0
  have "emitted h' = emitted h0 @ alternation False (accepted rs)"
    and "lastWasA pm' = odd (accepted rs)"
    by simp_all
  moreover have "\<forall>b pm h. b \<or> \<not> millis h - lastTrigMs pm < requiredGap pm \<longrightarrow>
            (\<exists>pm1 h1. triggerPulse b pm h = (True, pm1, h1)
                 \<and> lastWasA pm1 = (\<not> lastWasA pm)
                 \<and> emitted h1 = emitted h @ [if lastWasA pm then PolB else PolA])"
    using triggerPulse_open by blast
  ultimately show ?thesis by blast
qed

theorem triggerPulse_alternation_witness:
  "fst (pm_run [Elapse 1000, Trigger False, Trigger False, Elapse 700, Trigger False, Trigger True]
          (fst (PulseManager_begin PulseManager_new \<lparr>clock_ms = 0, in1 = False, in2 = False, writes = []\<rparr>))
          (snd (PulseManager_begin PulseManager_new \<lparr>clock_ms = 0, in1 = False, in2 = False, writes = []\<rparr>)))
     = [True, False, True, True]
   \<and> emitted (snd (snd (pm_run [Elapse 1000, Trigger False, Trigger False, Elapse 700, Trigger False, Trigger True]
          (fst (PulseManager_begin PulseManager_new \<lparr>clock_ms = 0, in1 = False, in2 = False, writes = []\<rparr>))
          (snd (PulseManager_begin PulseManager_new \<lparr>clock_ms = 0, in1 = False, in2 = False, writes = []\<rparr>)))))
     = [PolA, PolB, PolA]
   \<and> (\<exists>pm1 h1. triggerPulse True PulseManager_new \<lparr>clock_ms = 0, in1 = False, in2 = False, writes = []\<rparr> = (True, pm1, h1)
          \<and> lastWasA pm1 \<and> emitted h1 = [PolA])"
proof -
  let ?h0 = "\<lparr>clock_ms = 0, in1 = False, in2 = False, writes = []\<rparr>"
  let ?run = "pm_run [Elapse 1000, Trigger False, Trigger False, Elapse 700, Trigger False, Trigger True]
          (fst (PulseManager_begin PulseManager_new ?h0)) (snd (PulseManager_begin PulseManager_new ?h0))"
  have rs: "fst ?run = [True, False, True, True]"
    by (simp add: PulseManager_begin_def PulseManager_new_def triggerPulse_def requiredGap_def
      millis_def delay_def pulseA_def pulseB_def stopBridge_def Let_def)
  have run: "?run = (fst ?run, fst (snd ?run), snd (snd ?run))" by simp
  have e0: "emitted ?h0 = []" by (simp add: emitted_def)
  have l0: "\<not> lastWasA PulseManager_new" by (simp add: PulseManager_new_def)
  have acc: "accepted [True, False, True, True] = 3" by (simp add: accepted_def)
  have alt: "alternation False 3 = [PolA, PolB, PolA]" by (simp add: numeral_3_eq_3)
  note main = triggerPulse_alternation [OF run]
  from main have A: "emitted (snd (snd ?run)) = emitted ?h0 @ alternation False (accepted (fst ?run))"
    by blast
  from main have B: "True \<or> \<not> millis ?h0 - lastTrigMs PulseManager_new < requiredGap PulseManager_new \<longrightarrow>
       (\<exists>pm1 h1. triggerPulse True PulseManager_new ?h0 = (True, pm1, h1)
                 \<and> lastWasA pm1 = (\<not> lastWasA PulseManager_new)
                 \<and> emitted h1 = emitted ?h0 @ [if lastWasA PulseManager_new then PolB else PolA])"
    by blast
  from A have A': "emitted (snd (snd ?run)) = [PolA, PolB, PolA]"
    by (simp only: rs e0 acc alt append_Nil)
  from B have B': "\<exists>pm1 h1. triggerPulse True PulseManager_new ?h0 = (True, pm1, h1)
          \<and> lastWasA pm1 \<and> emitted h1 = [PolA]"
    by (simp only: e0 l0 append_Nil if_False simp_thms)
  from rs A' B' show ?thesis by blast
qed

section \<open>The engine: single steps\<close>

lemma diffForwardMinutes_self [simp]: "diffForwardMinutes a a = 0"
  by (simp add: diffForwardMinutes_eq_mod)

lemma tryStartCatchUp_active: "catchupActive w \<Longrightarrow> tryStartCatchUp cfg reason c w = w"
  by (simp add: tryStartCatchUp_def)

lemma checkMinuteChange_active: "catchupActive w \<Longrightarrow> checkMinuteChange cfg c w = w"
  by (simp add: checkMinuteChange_def)

lemma checkMinuteChange_same_minute:
  "minutesOfDay (read_now cfg c) = lastImpulseMinutes w \<Longrightarrow> checkMinuteChange cfg c w = w"
  by (simp add: checkMinuteChange_def Let_def)

lemma hardware_log_info [simp]: "hardware (log_info e w) = hardware w"
  by (simp add: log_info_def)

lemma hardware_log_error [simp]: "hardware (log_error e w) = hardware w"
  by (simp add: log_error_def)

lemma hardware_save_state [simp]: "hardware (save_state dt w) = hardware w"
  by (simp add: save_state_def)

lemma hardware_startCatchUp [simp]: "hardware (startCatchUp cfg d r w) = hardware w"
  by (simp add: startCatchUp_def Let_def)

lemma hardware_tryStartCatchUp [simp]: "hardware (tryStartCatchUp cfg r c w) = hardware w"
  by (simp add: tryStartCatchUp_def Let_def)

lemma loop_ntp_emitted: "emitted (hardware (loop_ntp cfg inp w)) = emitted (hardware w)"
  by (simp add: loop_ntp_def Let_def)

lemma tryStartCatchUp_in_cap:
  assumes "\<not> catchupActive w"
    and "diffForwardMinutes (lastImpulseMinutes w) (minutesOfDay (read_now cfg c)) \<noteq> 0"
    and "diffForwardMinutes (lastImpulseMinutes w) (minutesOfDay (read_now cfg c))
           \<le> maxCatchupMinutes cfg"
  shows "tryStartCatchUp cfg reason c w =
           w\<lparr>catchupRemaining :=
                diffForwardMinutes (lastImpulseMinutes w) (minutesOfDay (read_now cfg c)),
              catchupIntervalMs := word_of_int (impulseDelayMs cfg) + 150 + 50,
              catchupLastPulseMs := 0,
              catchupActive := True,
              logger := logger w @
                [(LInfo, CatchupStart
                   (diffForwardMinutes (lastImpulseMinutes w) (minutesOfDay (read_now cfg c)))
                   reason (word_of_int (impulseDelayMs cfg) + 150 + 50))]\<rparr>"
  using assms by (simp add: tryStartCatchUp_def Let_def startCatchUp_def log_info_def)

lemma checkMinuteChange_rejected:
  assumes "\<not> catchupActive w"
    and "minutesOfDay (read_now cfg c) \<noteq> lastImpulseMinutes w"
    and "millis (hardware w) - lastTrigMs (pulseManager w) < requiredGap (pulseManager w)"
  shows "checkMinuteChange cfg c w = log_info PulseSkipped w"
proof -
  have "triggerPulse False (pulseManager w) (hardware w) = (False, pulseManager w, hardware w)"
    using assms(3) by (simp add: triggerPulse_def)
  with assms show ?thesis
    by (simp add: checkMinuteChange_def Let_def)
qed

lemma checkMinuteChange_pulse:
  assumes "\<not> catchupActive w"
    and "minutesOfDay (read_now cfg c) \<noteq> lastImpulseMinutes w"
    and ok: "\<not> millis (hardware w) - lastTrigMs (pulseManager w) < requiredGap (pulseManager w)"
  shows "\<not> catchupActive (checkMinuteChange cfg c w)"
    and "catchupRemaining (checkMinuteChange cfg c w) = catchupRemaining w"
    and "lastImpulseMinutes (checkMinuteChange cfg c w) = minutesOfDay (read_now cfg c)"
    and "stateManager (checkMinuteChange cfg c w)
           = snd (saveClockTime (now_dt (read_now cfg c)) (stateManager w))"
    and "emitted (hardware (checkMinuteChange cfg c w))
           = emitted (hardware w) @ [if lastWasA (pulseManager w) then PolB else PolA]"
proof -
  from triggerPulse_open [of False "hardware w" "pulseManager w"] ok
  obtain pm' h' where t: "triggerPulse False (pulseManager w) (hardware w) = (True, pm', h')"
    and e: "emitted h' = emitted (hardware w) @ [if lastWasA (pulseManager w) then PolB else PolA]"
    by blast
  from assms t have eq: "checkMinuteChange cfg c w =
      save_state (now_dt (read_now cfg c))
        ((log_info (PulseFor (hhmm (int (hour (read_now cfg c))) (int (minute (read_now cfg c)))))
           (w\<lparr>pulseManager := pm', hardware := h'\<rparr>))
         \<lparr>lastImpulseMinutes := minutesOfDay (read_now cfg c)\<rparr>)"
    by (simp add: checkMinuteChange_def Let_def)
  show "\<not> catchupActive (checkMinuteChange cfg c w)"
    using assms by (simp add: eq save_state_def log_info_def)
  show "catchupRemaining (checkMinuteChange cfg c w) = catchupRemaining w"
    by (simp add: eq save_state_def log_info_def)
  show "lastImpulseMinutes (checkMinuteChange cfg c w) = minutesOfDay (read_now cfg c)"
    by (simp add: eq save_state_def log_info_def)
  show "stateManager (checkMinuteChange cfg c w)
           = snd (saveClockTime (now_dt (read_now cfg c)) (stateManager w))"
    by (simp add: eq save_state_def log_info_def)
  show "emitted (hardware (checkMinuteChange cfg c w))
           = emitted (hardware w) @ [if lastWasA (pulseManager w) then PolB else PolA]"
    by (simp add: eq e)
qed

section \<open>The catch-up engine\<close>

lemma tickCatchUp_inactive: "\<not> catchupActive w \<Longrightarrow> tickCatchUp cfg c w = w"
  by (simp add: tickCatchUp_def)

lemma tickCatchUp_closed:
  "catchupActive w \<Longrightarrow> \<not> gate_open w \<Longrightarrow> tickCatchUp cfg c w = w"
  by (simp add: tickCatchUp_def gate_open_def Let_def)

lemma saveClockTime_twice:
  "snd (saveClockTime a (snd (saveClockTime b sd))) = snd (saveClockTime a sd)"
  by (simp add: saveClockTime_def)

text \<open>What a save puts into the file, and the two values the engine saves, written out.\<close>

lemma saved_file:
  "can_write sd \<Longrightarrow> state_file (snd (saveClockTime dt sd)) = Some (println (formatDateTime dt))"
  by (simp add: saveClockTime_def)

lemma formatDateTime_of:
  assumes "0 \<le> h" "h < 256" "0 \<le> m" "m < 256"
  shows "formatDateTime (DateTime_of y M d h m s) = hhmm h m"
  using assms by (simp add: formatDateTime_def DateTime_of_def u8_of_def)

lemma hand_dt_in_range:
  assumes "0 \<le> p" and "p < 1440"
  shows "hand_dt p = DateTime_of 2000 1 1 (p div 60) (p mod 60) 0"
proof -
  have "p sdiv 60 = p div 60"
    using assms(1) by (simp add: signed_divide_int_def sgn_if)
  moreover have "p smod 60 = p mod 60"
    using assms(1) by (simp add: smod_nonneg_eq_mod)
  ultimately show ?thesis by (simp add: hand_dt_def)
qed

lemma hand_file:
  assumes "0 \<le> p" and "p < 1440" and "can_write sd"
  shows "state_file (snd (saveClockTime (hand_dt p) sd))
           = Some (println (hhmm (p div 60) (p mod 60)))"
proof -
  have "p div 60 < 256" using assms(2) by simp
  moreover have "0 \<le> p div 60" using assms(1) by simp
  ultimately have "formatDateTime (DateTime_of 2000 1 1 (p div 60) (p mod 60) 0)
      = hhmm (p div 60) (p mod 60)"
    by (intro formatDateTime_of) simp_all
  then show ?thesis
    using assms by (simp add: saved_file hand_dt_in_range)
qed

lemma now_file:
  assumes "can_write sd"
  shows "state_file (snd (saveClockTime (now_dt n) sd))
           = Some (println (hhmm (int (hour n mod 256)) (int (minute n mod 256))))"
  using assms
  by (simp add: saved_file now_dt_def formatDateTime_def DateTime_of_def u8_of_def
      nat_mod_distrib flip: zmod_int)

lemma tickCatchUp_pulse:
  assumes act: "catchupActive w" and gate: "gate_open w"
  shows "emitted (hardware (tickCatchUp cfg c w))
           = emitted (hardware w) @ [if lastWasA (pulseManager w) then PolB else PolA]"
    and "lastWasA (pulseManager (tickCatchUp cfg c w)) = (\<not> lastWasA (pulseManager w))"
    and "catchupRemaining (tickCatchUp cfg c w) = catchupRemaining w - 1"
    and "catchupActive (tickCatchUp cfg c w) = (1 < catchupRemaining w)"
    and "catchupIntervalMs (tickCatchUp cfg c w) = catchupIntervalMs w"
    and "catchupLastPulseMs (tickCatchUp cfg c w) = millis (hardware (tickCatchUp cfg c w))"
    and "1 < catchupRemaining w \<Longrightarrow>
           lastImpulseMinutes (tickCatchUp cfg c w) = (lastImpulseMinutes w + 1) smod 1440"
    and "1 < catchupRemaining w \<Longrightarrow>
           stateManager (tickCatchUp cfg c w)
             = snd (saveClockTime (hand_dt ((lastImpulseMinutes w + 1) smod 1440)) (stateManager w))"
    and "\<not> 1 < catchupRemaining w \<Longrightarrow>
           lastImpulseMinutes (tickCatchUp cfg c w) = minutesOfDay (read_now cfg c)"
    and "\<not> 1 < catchupRemaining w \<Longrightarrow>
           stateManager (tickCatchUp cfg c w)
             = snd (saveClockTime (now_dt (read_now cfg c)) (stateManager w))"
proof -
  from triggerPulse_open [of True "hardware w" "pulseManager w"]
  obtain pm' h' where t: "triggerPulse True (pulseManager w) (hardware w) = (True, pm', h')"
    and l: "lastWasA pm' = (\<not> lastWasA (pulseManager w))"
    and e: "emitted h' = emitted (hardware w) @ [if lastWasA (pulseManager w) then PolB else PolA]"
    by blast
  have gate': "catchupLastPulseMs w = 0
      \<or> catchupIntervalMs w \<le> millis (hardware w) - catchupLastPulseMs w"
    using gate by (simp add: gate_open_def)
  note defs = tickCatchUp_def Let_def save_state_def log_info_def saveClockTime_def
  show "emitted (hardware (tickCatchUp cfg c w))
           = emitted (hardware w) @ [if lastWasA (pulseManager w) then PolB else PolA]"
    using act gate' t e by (simp add: defs)
  show "lastWasA (pulseManager (tickCatchUp cfg c w)) = (\<not> lastWasA (pulseManager w))"
    using act gate' t l by (simp add: defs)
  show "catchupRemaining (tickCatchUp cfg c w) = catchupRemaining w - 1"
    using act gate' t by (simp add: defs)
  show "catchupActive (tickCatchUp cfg c w) = (1 < catchupRemaining w)"
    using act gate' t by (auto simp add: defs)
  show "catchupIntervalMs (tickCatchUp cfg c w) = catchupIntervalMs w"
    using act gate' t by (simp add: defs)
  show "catchupLastPulseMs (tickCatchUp cfg c w) = millis (hardware (tickCatchUp cfg c w))"
    using act gate' t by (simp add: defs)
  show "1 < catchupRemaining w \<Longrightarrow>
           lastImpulseMinutes (tickCatchUp cfg c w) = (lastImpulseMinutes w + 1) smod 1440"
    using act gate' t by (simp add: defs)
  show "1 < catchupRemaining w \<Longrightarrow>
           stateManager (tickCatchUp cfg c w)
             = snd (saveClockTime (hand_dt ((lastImpulseMinutes w + 1) smod 1440)) (stateManager w))"
    using act gate' t by (simp add: defs)
  show "\<not> 1 < catchupRemaining w \<Longrightarrow>
           lastImpulseMinutes (tickCatchUp cfg c w) = minutesOfDay (read_now cfg c)"
    using act gate' t by (simp add: defs)
  show "\<not> 1 < catchupRemaining w \<Longrightarrow>
           stateManager (tickCatchUp cfg c w)
             = snd (saveClockTime (now_dt (read_now cfg c)) (stateManager w))"
    using act gate' t by (simp add: defs)
qed

lemma elapse_fields [simp]:
  "catchupActive (elapse ms w) = catchupActive w"
  "catchupRemaining (elapse ms w) = catchupRemaining w"
  "lastImpulseMinutes (elapse ms w) = lastImpulseMinutes w"
  "stateManager (elapse ms w) = stateManager w"
  "pulseManager (elapse ms w) = pulseManager w"
  "catchupIntervalMs (elapse ms w) = catchupIntervalMs w"
  "catchupLastPulseMs (elapse ms w) = catchupLastPulseMs w"
  "emitted (hardware (elapse ms w)) = emitted (hardware w)"
  "millis (hardware (elapse ms w)) = millis (hardware w) + ms"
  by (simp_all add: elapse_def millis_def delay_def emitted_def)

lemma not_pulsed_self [simp]: "\<not> pulsed w w"
  by (simp add: pulsed_def)

lemma pulsed_tick:
  assumes "catchupActive w" "gate_open w"
  shows "pulsed w (tickCatchUp cfg c w)"
  using tickCatchUp_pulse(1) [OF assms, of cfg c] by (simp add: pulsed_def)

lemma catchup_run_inactive:
  "\<not> catchupActive w \<Longrightarrow>
     catchup_pulses cfg ins w = []
   \<and> \<not> catchupActive (catchup_run cfg ins w)
   \<and> catchupRemaining (catchup_run cfg ins w) = catchupRemaining w
   \<and> lastImpulseMinutes (catchup_run cfg ins w) = lastImpulseMinutes w
   \<and> stateManager (catchup_run cfg ins w) = stateManager w
   \<and> pulseManager (catchup_run cfg ins w) = pulseManager w
   \<and> emitted (hardware (catchup_run cfg ins w)) = emitted (hardware w)"
proof (induction ins arbitrary: w)
  case Nil
  then show ?case by simp
next
  case (Cons a ins)
  obtain ms c where a: "a = (ms, c)" by (cases a)
  have ina: "\<not> catchupActive (elapse ms w)" using Cons.prems by simp
  have t: "tickCatchUp cfg c (elapse ms w) = elapse ms w"
    using ina by (rule tickCatchUp_inactive)
  from Cons.IH [OF ina] show ?case by (simp add: a t)
qed

lemma catchup_run_invariant:
  assumes "catchupActive w" and "0 < catchupRemaining w"
    and "0 \<le> lastImpulseMinutes w" and "lastImpulseMinutes w < 1440"
  shows "int (length (catchup_pulses cfg ins w)) \<le> catchupRemaining w
   \<and> emitted (hardware (catchup_run cfg ins w))
       = emitted (hardware w)
         @ alternation (lastWasA (pulseManager w)) (length (catchup_pulses cfg ins w))
   \<and> catchupActive (catchup_run cfg ins w)
       = (int (length (catchup_pulses cfg ins w)) < catchupRemaining w)
   \<and> catchupRemaining (catchup_run cfg ins w)
       = catchupRemaining w - int (length (catchup_pulses cfg ins w))
   \<and> (int (length (catchup_pulses cfg ins w)) < catchupRemaining w \<longrightarrow>
        lastImpulseMinutes (catchup_run cfg ins w)
          = (lastImpulseMinutes w + int (length (catchup_pulses cfg ins w))) mod 1440
      \<and> stateManager (catchup_run cfg ins w)
          = (if catchup_pulses cfg ins w = [] then stateManager w
             else snd (saveClockTime
                        (hand_dt ((lastImpulseMinutes w
                                   + int (length (catchup_pulses cfg ins w))) mod 1440))
                        (stateManager w))))
   \<and> (int (length (catchup_pulses cfg ins w)) = catchupRemaining w \<longrightarrow>
        lastImpulseMinutes (catchup_run cfg ins w)
          = minutesOfDay (read_now cfg (last (catchup_pulses cfg ins w)))
      \<and> stateManager (catchup_run cfg ins w)
          = snd (saveClockTime (now_dt (read_now cfg (last (catchup_pulses cfg ins w))))
                   (stateManager w)))"
  using assms
proof (induction ins arbitrary: w)
  case Nil
  then show ?case by simp
next
  case (Cons a ins)
  obtain ms c where a: "a = (ms, c)" by (cases a)
  let ?w1 = "elapse ms w"
  let ?w2 = "tickCatchUp cfg c ?w1"
  have act1: "catchupActive ?w1" using Cons.prems by simp
  show ?case
  proof (cases "gate_open ?w1")
    case False
    have t: "?w2 = ?w1" using act1 False by (rule tickCatchUp_closed)
    from Cons.IH [of ?w1] Cons.prems show ?thesis
      by (simp add: a t)
  next
    case True
    note st = tickCatchUp_pulse [OF act1 True, of cfg c]
    have p: "pulsed ?w1 ?w2" using act1 True by (rule pulsed_tick)
    show ?thesis
    proof (cases "1 < catchupRemaining w")
      case False
      then have d1: "catchupRemaining w = 1" using Cons.prems by simp
      have ina: "\<not> catchupActive ?w2" using st(4) False by simp
      note rest = catchup_run_inactive [OF ina, of cfg ins]
      from rest st False d1 p show ?thesis
        by (simp add: a saveClockTime_twice)
    next
      case big: True
      have big1: "1 < catchupRemaining ?w1" using big by simp
      have act2: "catchupActive ?w2" using st(4) big by simp
      have rem2: "0 < catchupRemaining ?w2" using st(3) big by simp
      have m2: "lastImpulseMinutes ?w2 = (lastImpulseMinutes w + 1) mod 1440"
        using st(7) [OF big1] Cons.prems by (simp add: smod_nonneg_eq_mod)
      have lo2: "0 \<le> lastImpulseMinutes ?w2" and hi2: "lastImpulseMinutes ?w2 < 1440"
        by (simp_all add: m2)
      have sd2: "stateManager ?w2
          = snd (saveClockTime (hand_dt ((lastImpulseMinutes w + 1) mod 1440)) (stateManager w))"
        using st(8) [OF big1] Cons.prems by (simp add: smod_nonneg_eq_mod)
      note ih = Cons.IH [OF act2 rem2 lo2 hi2]
      let ?ps = "catchup_pulses cfg ins ?w2"
      have pulses: "catchup_pulses cfg (a # ins) w = c # ?ps" using p by (simp add: a)
      have run: "catchup_run cfg (a # ins) w = catchup_run cfg ins ?w2" by (simp add: a)
      have madd: "((lastImpulseMinutes w + 1) mod 1440 + int (length ?ps)) mod 1440
           = (lastImpulseMinutes w + (1 + int (length ?ps))) mod 1440"
        by (simp add: mod_add_left_eq add.assoc)
      have lastc: "int (length ?ps) = catchupRemaining w - 1 \<Longrightarrow> last (c # ?ps) = last ?ps"
        using big by auto
      from ih big show ?thesis
        unfolding pulses run
        by (auto simp add: st(1,2,3) m2 sd2 madd saveClockTime_twice lastc)
    qed
  qed
qed


lemma gate_open_paced:
  assumes "catchupLastPulseMs w = 0 \<or> catchupLastPulseMs w = millis (hardware w)"
    and "catchupIntervalMs w \<le> ms"
  shows "gate_open (elapse ms w)"
  using assms by (auto simp add: gate_open_def)

lemma catchup_run_paced:
  assumes "catchupActive w" and "0 < catchupRemaining w"
    and "catchupLastPulseMs w = 0 \<or> catchupLastPulseMs w = millis (hardware w)"
    and "\<forall>(ms, c) \<in> set ins. catchupIntervalMs w \<le> ms"
  shows "catchup_pulses cfg ins w = take (nat (catchupRemaining w)) (map snd ins)"
  using assms
proof (induction ins arbitrary: w)
  case Nil
  then show ?case by simp
next
  case (Cons a ins)
  obtain ms c where a: "a = (ms, c)" by (cases a)
  let ?w1 = "elapse ms w"
  let ?w2 = "tickCatchUp cfg c ?w1"
  have act1: "catchupActive ?w1" using Cons.prems by simp
  have ms: "catchupIntervalMs w \<le> ms" using Cons.prems(4) by (simp add: a)
  have gate: "gate_open ?w1" using Cons.prems(3) ms by (rule gate_open_paced)
  note st = tickCatchUp_pulse [OF act1 gate, of cfg c]
  have p: "pulsed ?w1 ?w2" using act1 gate by (rule pulsed_tick)
  have pulses: "catchup_pulses cfg (a # ins) w = c # catchup_pulses cfg ins ?w2"
    using p by (simp add: a)
  have tk: "take (nat (catchupRemaining w)) (map snd (a # ins))
       = c # take (nat (catchupRemaining w - 1)) (map snd ins)"
    using Cons.prems(2) by (simp add: a take_Cons' nat_diff_distrib)
  show ?case
  proof (cases "1 < catchupRemaining w")
    case False
    then have ina: "\<not> catchupActive ?w2" using st(4) by simp
    from False Cons.prems(2) have d1: "catchupRemaining w = 1" by simp
    from catchup_run_inactive [OF ina, of cfg ins] show ?thesis
      unfolding pulses tk by (simp add: d1)
  next
    case True
    have act2: "catchupActive ?w2" using st(4) True by simp
    have rem2: "0 < catchupRemaining ?w2" using st(3) True by simp
    have last2: "catchupLastPulseMs ?w2 = 0 \<or> catchupLastPulseMs ?w2 = millis (hardware ?w2)"
      using st(6) by simp
    have int2: "\<forall>(ms, c) \<in> set ins. catchupIntervalMs ?w2 \<le> ms"
      using Cons.prems(4) st(5) by simp
    from Cons.IH [OF act2 rem2 last2 int2] show ?thesis
      unfolding pulses tk by (simp add: st(3))
  qed
qed

lemmas sample_defs = applyDefaults_def SystemManager_new_def idle_at_def clocks_at_def pass_at_def
  PulseManager_new_def DateTime_of_def u8_of_def minutesOfDay_def read_now_def
  diffForwardMinutes_eq_mod ntp_sentinel_def

section \<open>Properties of the reconciliation engine\<close>

text \<open>
  C10. While a catch-up session is active, the gate \<open>tryStartCatchUp\<close> (used at boot and
  after an NTP correction) returns without changing anything (session state, hand position
  and everything else), the regular minute tick \<open>checkMinuteChange\<close> is disabled, and the
  pulses emitted by a whole pass of the main loop are exactly those of the catch-up engine.
\<close>

theorem active_session_only_catchup_pulses:
  assumes "catchupActive w"
  shows "tryStartCatchUp cfg reason c w = w
       \<and> checkMinuteChange cfg c w = w
       \<and> emitted (hardware (loop cfg inp w))
           = emitted (hardware (tickCatchUp cfg (catchup_clocks inp) w))"
  using assms
  by (simp add: tryStartCatchUp_active checkMinuteChange_active loop_def loop_ntp_emitted)

theorem active_session_only_catchup_pulses_witness:
  "catchupActive (startCatchUp applyDefaults 5 ''boot'' (idle_at 0 1000))
   \<and> tryStartCatchUp applyDefaults ''ntp-resync'' (clocks_at 0 9)
        (startCatchUp applyDefaults 5 ''boot'' (idle_at 0 1000))
      = startCatchUp applyDefaults 5 ''boot'' (idle_at 0 1000)
   \<and> checkMinuteChange applyDefaults (clocks_at 0 9)
        (startCatchUp applyDefaults 5 ''boot'' (idle_at 0 1000))
      = startCatchUp applyDefaults 5 ''boot'' (idle_at 0 1000)"
proof -
  have a: "catchupActive (startCatchUp applyDefaults 5 ''boot'' (idle_at 0 1000))"
    by (simp add: startCatchUp_def Let_def log_info_def)
  from active_session_only_catchup_pulses [OF a] a show ?thesis by simp
qed

text \<open>
  C3 as stated speaks of every state. In a state with an active session the gate returns
  at once: a forward difference of 300 minutes against a cap of 180 is not reported, the log
  holds nothing but the earlier start message.
\<close>

theorem gate_over_cap_counterexample:
  "catchupActive (startCatchUp applyDefaults 5 ''boot'' (idle_at 0 1000))
   \<and> diffForwardMinutes
        (lastImpulseMinutes (startCatchUp applyDefaults 5 ''boot'' (idle_at 0 1000)))
        (minutesOfDay (read_now applyDefaults (clocks_at 5 0))) = 300
   \<and> maxCatchupMinutes applyDefaults = 180
   \<and> logger (tryStartCatchUp applyDefaults ''ntp-resync'' (clocks_at 5 0)
               (startCatchUp applyDefaults 5 ''boot'' (idle_at 0 1000)))
      = [(LInfo, CatchupStart 5 ''boot'' 700)]"
  by (simp add: sample_defs startCatchUp_def Let_def log_info_def tryStartCatchUp_def)

text \<open>
  C3, amended. When no catch-up session is active and the forward difference is non-zero
  and exceeds \<open>maxCatchupMinutes\<close>, a catch-up request through the gate is refused: the
  only effect is one error entry in the log. No pulse is emitted, no session is started, and
  the hand position and the state file are unchanged.
\<close>

theorem gate_refuses_over_cap:
  assumes "\<not> catchupActive w"
    and "diffForwardMinutes (lastImpulseMinutes w) (minutesOfDay (read_now cfg c))
           > maxCatchupMinutes cfg"
    and "diffForwardMinutes (lastImpulseMinutes w) (minutesOfDay (read_now cfg c)) \<noteq> 0"
  shows "tryStartCatchUp cfg reason c w =
           w\<lparr>logger := logger w @
               [(LError, CatchupExceedsLimit
                  (diffForwardMinutes (lastImpulseMinutes w) (minutesOfDay (read_now cfg c))))]\<rparr>"
  using assms by (simp add: tryStartCatchUp_def Let_def log_error_def)

theorem gate_refuses_over_cap_witness:
  "\<not> catchupActive (idle_at 0 1000)
   \<and> diffForwardMinutes (lastImpulseMinutes (idle_at 0 1000))
        (minutesOfDay (read_now applyDefaults (clocks_at 3 1))) = 181
   \<and> maxCatchupMinutes applyDefaults = 180
   \<and> tryStartCatchUp applyDefaults ''boot'' (clocks_at 3 1) (idle_at 0 1000)
      = (idle_at 0 1000)\<lparr>logger := [(LError, CatchupExceedsLimit 181)]\<rparr>"
proof -
  have idle: "\<not> catchupActive (idle_at 0 1000)" by (simp add: sample_defs)
  have d: "diffForwardMinutes (lastImpulseMinutes (idle_at 0 1000))
        (minutesOfDay (read_now applyDefaults (clocks_at 3 1))) = 181"
    by (simp add: sample_defs)
  have cap: "maxCatchupMinutes applyDefaults = 180" by (simp add: sample_defs)
  have lg: "logger (idle_at 0 1000) = []" by (simp add: sample_defs)
  from gate_refuses_over_cap [of "idle_at 0 1000" applyDefaults "clocks_at 3 1" "''boot''"]
    idle d cap lg
  show ?thesis by simp
qed

lemmas run_defs = loop_def loop_ntp_def checkMinuteChange_def tickCatchUp_def tryStartCatchUp_def
  startCatchUp_def triggerPulse_def requiredGap_def pulseA_def pulseB_def stopBridge_def
  millis_def delay_def emitted_def log_info_def log_error_def save_state_def saveClockTime_def
  Let_def

text \<open>
  C1 as stated: an idle engine with the hands at 00:00 whose tick reads 00:07 (forward
  difference 7, cap 180). The pass of the main loop emits one pulse, sets the hand position
  to 7 at once and starts no catch-up session.
\<close>

theorem tick_lag_counterexample:
  "\<not> catchupActive (idle_at 0 1000)
   \<and> diffForwardMinutes (lastImpulseMinutes (idle_at 0 1000))
        (minutesOfDay (read_now applyDefaults (clocks_at 0 7))) = 7
   \<and> maxCatchupMinutes applyDefaults = 180
   \<and> \<not> catchupActive
         (loop applyDefaults
            (pass_at (clocks_at 0 7)
               \<lparr>sync_ms = 0, isdst_before = 0, isdst_after = 0, sys_before = 0, sys_after = 0\<rparr>)
            (idle_at 0 1000))
   \<and> lastImpulseMinutes
         (loop applyDefaults
            (pass_at (clocks_at 0 7)
               \<lparr>sync_ms = 0, isdst_before = 0, isdst_after = 0, sys_before = 0, sys_after = 0\<rparr>)
            (idle_at 0 1000)) = 7
   \<and> emitted (hardware
         (loop applyDefaults
            (pass_at (clocks_at 0 7)
               \<lparr>sync_ms = 0, isdst_before = 0, isdst_after = 0, sys_before = 0, sys_after = 0\<rparr>)
            (idle_at 0 1000))) = [PolA]"
  by (simp add: sample_defs run_defs)

text \<open>
  C1, amended. In the Idle state, with a forward difference \<open>1 < d \<le> maxCatchupMinutes\<close>
  between the hand position and the minute read:
  \<^item> a catch-up request through the gate \<open>tryStartCatchUp\<close> (boot, NTP correction) moves
    the engine to CatchingUp with \<open>remaining = d\<close> and changes nothing else; in particular
    the hand position is not touched and no pulse is emitted;
  \<^item> the regular minute tick \<open>checkMinuteChange\<close> does not compute the difference: it
    attempts one guarded pulse, and either the guard rejects it (only a log entry), or the
    pulse is emitted, the hand position is set to the minute read and persisted, and no
    session is started.
\<close>

theorem lag_starts_catchup_at_gate:
  assumes "\<not> catchupActive w"
    and "1 < diffForwardMinutes (lastImpulseMinutes w) (minutesOfDay (read_now cfg c))"
    and "diffForwardMinutes (lastImpulseMinutes w) (minutesOfDay (read_now cfg c))
           \<le> maxCatchupMinutes cfg"
  shows "tryStartCatchUp cfg reason c w =
           w\<lparr>catchupRemaining :=
                diffForwardMinutes (lastImpulseMinutes w) (minutesOfDay (read_now cfg c)),
              catchupIntervalMs := word_of_int (impulseDelayMs cfg) + 150 + 50,
              catchupLastPulseMs := 0,
              catchupActive := True,
              logger := logger w @
                [(LInfo, CatchupStart
                   (diffForwardMinutes (lastImpulseMinutes w) (minutesOfDay (read_now cfg c)))
                   reason (word_of_int (impulseDelayMs cfg) + 150 + 50))]\<rparr>
       \<and> (millis (hardware w) - lastTrigMs (pulseManager w) < requiredGap (pulseManager w)
            \<longrightarrow> checkMinuteChange cfg c w = log_info PulseSkipped w)
       \<and> (\<not> millis (hardware w) - lastTrigMs (pulseManager w) < requiredGap (pulseManager w)
            \<longrightarrow> \<not> catchupActive (checkMinuteChange cfg c w)
              \<and> catchupRemaining (checkMinuteChange cfg c w) = catchupRemaining w
              \<and> lastImpulseMinutes (checkMinuteChange cfg c w) = minutesOfDay (read_now cfg c)
              \<and> stateManager (checkMinuteChange cfg c w)
                   = snd (saveClockTime (now_dt (read_now cfg c)) (stateManager w))
              \<and> emitted (hardware (checkMinuteChange cfg c w))
                   = emitted (hardware w) @ [if lastWasA (pulseManager w) then PolB else PolA])"
proof -
  have nz: "diffForwardMinutes (lastImpulseMinutes w) (minutesOfDay (read_now cfg c)) \<noteq> 0"
    using assms(2) by simp
  then have ne: "minutesOfDay (read_now cfg c) \<noteq> lastImpulseMinutes w"
    by auto
  note gate = tryStartCatchUp_in_cap [OF assms(1) nz assms(3), of reason]
  note rej = checkMinuteChange_rejected [OF assms(1) ne]
  note acc = checkMinuteChange_pulse [OF assms(1) ne]
  show ?thesis
    using gate rej acc by blast
qed

theorem lag_starts_catchup_at_gate_witness:
  "\<not> catchupActive (idle_at 0 1000)
   \<and> 1 < diffForwardMinutes (lastImpulseMinutes (idle_at 0 1000))
            (minutesOfDay (read_now applyDefaults (clocks_at 0 7)))
   \<and> diffForwardMinutes (lastImpulseMinutes (idle_at 0 1000))
            (minutesOfDay (read_now applyDefaults (clocks_at 0 7)))
        \<le> maxCatchupMinutes applyDefaults
   \<and> tryStartCatchUp applyDefaults ''boot'' (clocks_at 0 7) (idle_at 0 1000)
      = (idle_at 0 1000)
          \<lparr>catchupRemaining := 7, catchupIntervalMs := 700, catchupLastPulseMs := 0,
           catchupActive := True, logger := [(LInfo, CatchupStart 7 ''boot'' 700)]\<rparr>
   \<and> lastImpulseMinutes (checkMinuteChange applyDefaults (clocks_at 0 7) (idle_at 0 1000)) = 7
   \<and> checkMinuteChange applyDefaults (clocks_at 0 7) (idle_at 0 100)
      = log_info PulseSkipped (idle_at 0 100)"
proof -
  have idle: "\<not> catchupActive (idle_at 0 1000)" "\<not> catchupActive (idle_at 0 100)"
    by (simp_all add: sample_defs)
  have d: "diffForwardMinutes (lastImpulseMinutes (idle_at 0 1000))
            (minutesOfDay (read_now applyDefaults (clocks_at 0 7))) = 7"
     "diffForwardMinutes (lastImpulseMinutes (idle_at 0 100))
            (minutesOfDay (read_now applyDefaults (clocks_at 0 7))) = 7"
    by (simp_all add: sample_defs)
  have cap: "maxCatchupMinutes applyDefaults = 180" by (simp add: sample_defs)
  have g1: "\<not> millis (hardware (idle_at 0 1000)) - lastTrigMs (pulseManager (idle_at 0 1000))
              < requiredGap (pulseManager (idle_at 0 1000))"
    by (simp add: sample_defs millis_def requiredGap_def)
  have g2: "millis (hardware (idle_at 0 100)) - lastTrigMs (pulseManager (idle_at 0 100))
              < requiredGap (pulseManager (idle_at 0 100))"
    by (simp add: sample_defs millis_def requiredGap_def)
  have aux: "impulseDelayMs applyDefaults = 500" "logger (idle_at 0 1000) = []"
     "minutesOfDay (read_now applyDefaults (clocks_at 0 7)) = 7"
    by (simp_all add: sample_defs)
  from lag_starts_catchup_at_gate
         [of "idle_at 0 1000" applyDefaults "clocks_at 0 7" "''boot''"] idle d cap g1 aux
  have A: "tryStartCatchUp applyDefaults ''boot'' (clocks_at 0 7) (idle_at 0 1000)
      = (idle_at 0 1000)
          \<lparr>catchupRemaining := 7, catchupIntervalMs := 700, catchupLastPulseMs := 0,
           catchupActive := True, logger := [(LInfo, CatchupStart 7 ''boot'' 700)]\<rparr>"
    and B: "lastImpulseMinutes (checkMinuteChange applyDefaults (clocks_at 0 7) (idle_at 0 1000)) = 7"
    by simp_all
  from lag_starts_catchup_at_gate
         [of "idle_at 0 100" applyDefaults "clocks_at 0 7" "''boot''"] idle d cap g2
  have C: "checkMinuteChange applyDefaults (clocks_at 0 7) (idle_at 0 100)
      = log_info PulseSkipped (idle_at 0 100)"
    by simp
  from idle d cap A B C show ?thesis by simp
qed

text \<open>
  C7 as stated: with both clocks showing the sentinel time (2000-01-01 00:00:00), the tick
  of an idle engine whose hands stand at 00:05 emits a pulse, and the gate of an idle engine
  whose hands stand at 23:20 starts a catch-up session of 40 pulses.
\<close>

theorem sentinel_counterexample:
  "read_now applyDefaults \<lparr>sysLocalNow = ntp_sentinel, rtcNow = ntp_sentinel\<rparr> = ntp_sentinel
   \<and> emitted (hardware (idle_at 5 1000)) = []
   \<and> emitted (hardware
        (checkMinuteChange applyDefaults \<lparr>sysLocalNow = ntp_sentinel, rtcNow = ntp_sentinel\<rparr>
           (idle_at 5 1000))) = [PolA]
   \<and> \<not> catchupActive (idle_at 1400 1000)
   \<and> catchupActive
        (tryStartCatchUp applyDefaults ''ntp-resync''
           \<lparr>sysLocalNow = ntp_sentinel, rtcNow = ntp_sentinel\<rparr> (idle_at 1400 1000))
   \<and> catchupRemaining
        (tryStartCatchUp applyDefaults ''ntp-resync''
           \<lparr>sysLocalNow = ntp_sentinel, rtcNow = ntp_sentinel\<rparr> (idle_at 1400 1000)) = 40"
  by (simp add: sample_defs run_defs)

text \<open>
  C7, amended. When the clock read is the sentinel time and the hand position equals the
  sentinel's minute of day (sentinel against sentinel), the tick changes nothing and the
  gate neither emits a pulse nor starts a session (in Idle it only logs "up to date"); the
  forward difference is 0. A forward difference is always below 1440, so a catch-up of 1440
  minutes is never requested. The engine does not otherwise tell the sentinel from a valid
  reading.
\<close>

theorem sentinel_vs_sentinel_no_change:
  assumes "read_now cfg c = ntp_sentinel"
    and "lastImpulseMinutes w = minutesOfDay ntp_sentinel"
  shows "checkMinuteChange cfg c w = w
       \<and> tryStartCatchUp cfg reason c w
           = (if catchupActive w then w else log_info ClocksUpToDate w)
       \<and> emitted (hardware (tryStartCatchUp cfg reason c w)) = emitted (hardware w)
       \<and> catchupActive (tryStartCatchUp cfg reason c w) = catchupActive w
       \<and> diffForwardMinutes (lastImpulseMinutes w) (minutesOfDay (read_now cfg c)) = 0
       \<and> diffForwardMinutes a b < 1440"
proof -
  have same: "minutesOfDay (read_now cfg c) = lastImpulseMinutes w" using assms by simp
  have 1: "checkMinuteChange cfg c w = w" using same by (rule checkMinuteChange_same_minute)
  have 2: "tryStartCatchUp cfg reason c w
           = (if catchupActive w then w else log_info ClocksUpToDate w)"
    using same by (simp add: tryStartCatchUp_def Let_def)
  have 3: "catchupActive (tryStartCatchUp cfg reason c w) = catchupActive w"
    by (simp add: 2 log_info_def)
  have 4: "diffForwardMinutes (lastImpulseMinutes w) (minutesOfDay (read_now cfg c)) = 0"
    using same by simp
  show ?thesis using 1 2 3 4 diffForwardMinutes_range(2) [of a b] by simp
qed

theorem sentinel_vs_sentinel_no_change_witness:
  "read_now applyDefaults \<lparr>sysLocalNow = ntp_sentinel, rtcNow = ntp_sentinel\<rparr> = ntp_sentinel
   \<and> lastImpulseMinutes (idle_at 0 1000) = minutesOfDay ntp_sentinel
   \<and> checkMinuteChange applyDefaults \<lparr>sysLocalNow = ntp_sentinel, rtcNow = ntp_sentinel\<rparr>
        (idle_at 0 1000) = idle_at 0 1000
   \<and> tryStartCatchUp applyDefaults ''boot'' \<lparr>sysLocalNow = ntp_sentinel, rtcNow = ntp_sentinel\<rparr>
        (idle_at 0 1000) = log_info ClocksUpToDate (idle_at 0 1000)"
proof -
  have r: "read_now applyDefaults \<lparr>sysLocalNow = ntp_sentinel, rtcNow = ntp_sentinel\<rparr>
            = ntp_sentinel"
    by (simp add: read_now_def)
  have l: "lastImpulseMinutes (idle_at 0 1000) = minutesOfDay ntp_sentinel"
    by (simp add: sample_defs)
  have i: "\<not> catchupActive (idle_at 0 1000)" by (simp add: sample_defs)
  from sentinel_vs_sentinel_no_change [OF r l, of "''boot''"] r l i show ?thesis by simp
qed

lemma dstShiftDetected_nonzero: "dstShiftDetected r \<Longrightarrow> sysDelta r \<noteq> 0"
  by (auto simp add: dstShiftDetected_def)

lemma begin_align_dst:
  assumes "dstShiftDetected (boot_ntp inp)"
  shows "lastImpulseMinutes (begin_align cfg inp w) = minutesOfDay (boot_now cfg inp)"
    and "stateManager (begin_align cfg inp w)
           = snd (saveClockTime (now_dt (boot_now cfg inp))
                    (snd (loadLastKnownClockTime (boot_tm inp) (stateManager w))))"
    and "emitted (hardware (begin_align cfg inp w)) = emitted (hardware w)"
    and "catchupActive (begin_align cfg inp w) = catchupActive w"
    and "catchupRemaining (begin_align cfg inp w) = catchupRemaining w"
  using assms
  by (simp_all add: begin_align_def Let_def log_info_def log_error_def save_state_def)

text \<open>
  The gate on an idle engine: it never touches the hand position, the state file or the
  outputs, and it starts a session exactly for a non-zero difference within the cap.
\<close>

lemma tryStartCatchUp_idle:
  assumes "\<not> catchupActive w"
  shows "lastImpulseMinutes (tryStartCatchUp cfg r c w) = lastImpulseMinutes w"
    and "stateManager (tryStartCatchUp cfg r c w) = stateManager w"
    and "catchupActive (tryStartCatchUp cfg r c w)
           = (diffForwardMinutes (lastImpulseMinutes w) (minutesOfDay (read_now cfg c)) \<noteq> 0
              \<and> diffForwardMinutes (lastImpulseMinutes w) (minutesOfDay (read_now cfg c))
                  \<le> maxCatchupMinutes cfg)"
    and "catchupActive (tryStartCatchUp cfg r c w) \<Longrightarrow>
           catchupRemaining (tryStartCatchUp cfg r c w)
             = diffForwardMinutes (lastImpulseMinutes w) (minutesOfDay (read_now cfg c))"
  using assms
  by (auto simp add: tryStartCatchUp_def Let_def startCatchUp_def log_info_def log_error_def)

text \<open>
  The whole of \<open>begin\<close> under a DST report: the alignment, followed by the boot gate with
  its own clock read.
\<close>

lemma begin_dst:
  assumes dst: "dstShiftDetected (boot_ntp inp)" and idle: "\<not> catchupActive w"
  shows "lastImpulseMinutes (SystemManager_begin cfg inp w) = minutesOfDay (boot_now cfg inp)"
    and "stateManager (SystemManager_begin cfg inp w)
           = snd (saveClockTime (now_dt (boot_now cfg inp))
                    (snd (loadLastKnownClockTime (boot_tm inp) (stateManager w))))"
    and "emitted (hardware (SystemManager_begin cfg inp w)) = emitted (hardware w)"
    and "catchupActive (SystemManager_begin cfg inp w)
           = (diffForwardMinutes (minutesOfDay (boot_now cfg inp))
                (minutesOfDay (read_now cfg (boot_gate_clocks inp))) \<noteq> 0
              \<and> diffForwardMinutes (minutesOfDay (boot_now cfg inp))
                  (minutesOfDay (read_now cfg (boot_gate_clocks inp))) \<le> maxCatchupMinutes cfg)"
    and "catchupActive (SystemManager_begin cfg inp w) \<Longrightarrow>
           catchupRemaining (SystemManager_begin cfg inp w)
             = diffForwardMinutes (minutesOfDay (boot_now cfg inp))
                 (minutesOfDay (read_now cfg (boot_gate_clocks inp)))"
proof -
  let ?a = "begin_align cfg inp w"
  let ?g = "tryStartCatchUp cfg ''boot'' (boot_gate_clocks inp) ?a"
  note al = begin_align_dst [OF dst, of cfg w]
  have idle_a: "\<not> catchupActive ?a" using al(4) idle by simp
  note g = tryStartCatchUp_idle [OF idle_a, of cfg "''boot''" "boot_gate_clocks inp"]
  have fields:
    "lastImpulseMinutes (SystemManager_begin cfg inp w) = lastImpulseMinutes ?g"
    "stateManager (SystemManager_begin cfg inp w) = stateManager ?g"
    "hardware (SystemManager_begin cfg inp w) = hardware ?g"
    "catchupActive (SystemManager_begin cfg inp w) = catchupActive ?g"
    "catchupRemaining (SystemManager_begin cfg inp w) = catchupRemaining ?g"
    by (simp_all add: SystemManager_begin_def doCatchUpIfNeeded_def Let_def log_info_def)
  show "lastImpulseMinutes (SystemManager_begin cfg inp w) = minutesOfDay (boot_now cfg inp)"
    by (simp only: fields g(1) al(1))
  show "stateManager (SystemManager_begin cfg inp w)
           = snd (saveClockTime (now_dt (boot_now cfg inp))
                    (snd (loadLastKnownClockTime (boot_tm inp) (stateManager w))))"
    by (simp only: fields g(2) al(2))
  show "emitted (hardware (SystemManager_begin cfg inp w)) = emitted (hardware w)"
    by (simp only: fields hardware_tryStartCatchUp al(3))
  show "catchupActive (SystemManager_begin cfg inp w)
           = (diffForwardMinutes (minutesOfDay (boot_now cfg inp))
                (minutesOfDay (read_now cfg (boot_gate_clocks inp))) \<noteq> 0
              \<and> diffForwardMinutes (minutesOfDay (boot_now cfg inp))
                  (minutesOfDay (read_now cfg (boot_gate_clocks inp))) \<le> maxCatchupMinutes cfg)"
    using g(3) by (simp only: fields al(1))
  show "catchupRemaining (SystemManager_begin cfg inp w)
             = diffForwardMinutes (minutesOfDay (boot_now cfg inp))
                 (minutesOfDay (read_now cfg (boot_gate_clocks inp)))"
    if "catchupActive (SystemManager_begin cfg inp w)"
    using g(4) that by (simp only: fields al(1))
qed

text \<open>
  C2 as stated covers the boot-time synchronisation too. There the realignment is followed
  by the boot gate, which reads the clock again: with a DST report at boot, the clock at
  03:00 for the alignment and at 03:01 for the gate, \<open>begin\<close> ends with a catch-up session
  of one pulse started.
\<close>

theorem boot_dst_gate_counterexample:
  "dstShiftDetected
     \<lparr>sync_ms = 300, isdst_before = 0, isdst_after = 1,
      sys_before = 1000000, sys_after = 1003600\<rparr>
   \<and> \<not> catchupActive SystemManager_new
   \<and> lastImpulseMinutes
        (SystemManager_begin applyDefaults
           \<lparr>rtcInitOk = True,
            boot_ntp = \<lparr>sync_ms = 300, isdst_before = 0, isdst_after = 1,
                        sys_before = 1000000, sys_after = 1003600\<rparr>,
            boot_tm = None, boot_clocks = clocks_at 3 0, boot_gate_clocks = clocks_at 3 1\<rparr>
           SystemManager_new) = 180
   \<and> catchupActive
        (SystemManager_begin applyDefaults
           \<lparr>rtcInitOk = True,
            boot_ntp = \<lparr>sync_ms = 300, isdst_before = 0, isdst_after = 1,
                        sys_before = 1000000, sys_after = 1003600\<rparr>,
            boot_tm = None, boot_clocks = clocks_at 3 0, boot_gate_clocks = clocks_at 3 1\<rparr>
           SystemManager_new)
   \<and> catchupRemaining
        (SystemManager_begin applyDefaults
           \<lparr>rtcInitOk = True,
            boot_ntp = \<lparr>sync_ms = 300, isdst_before = 0, isdst_after = 1,
                        sys_before = 1000000, sys_after = 1003600\<rparr>,
            boot_tm = None, boot_clocks = clocks_at 3 0, boot_gate_clocks = clocks_at 3 1\<rparr>
           SystemManager_new) = 1"
proof -
  let ?r = "\<lparr>sync_ms = 300, isdst_before = 0, isdst_after = 1,
            sys_before = 1000000, sys_after = 1003600\<rparr>"
  let ?b = "\<lparr>rtcInitOk = True, boot_ntp = ?r,
            boot_tm = None, boot_clocks = clocks_at 3 0, boot_gate_clocks = clocks_at 3 1\<rparr>"
  have dst: "dstShiftDetected ?r"
    by (simp add: dstShiftDetected_def dstFlip_def sysDelta_def)
  have dst': "dstShiftDetected (boot_ntp ?b)" using dst by simp
  have idle: "\<not> catchupActive SystemManager_new" by (simp add: sample_defs)
  have bn: "minutesOfDay (boot_now applyDefaults ?b) = 180"
    by (simp add: boot_now_def sample_defs)
  have gn: "minutesOfDay (read_now applyDefaults (boot_gate_clocks ?b)) = 181"
    by (simp add: sample_defs)
  have cap: "maxCatchupMinutes applyDefaults = 180" by (simp add: sample_defs)
  have df: "diffForwardMinutes 180 181 = 1" by (simp add: diffForwardMinutes_eq_mod)
  note b = begin_dst [OF dst' idle, of applyDefaults]
  have 1: "lastImpulseMinutes (SystemManager_begin applyDefaults ?b SystemManager_new) = 180"
    using b(1) by (simp only: bn)
  have 2: "catchupActive (SystemManager_begin applyDefaults ?b SystemManager_new)"
    using b(4) by (simp only: bn gn df cap) simp
  have 3: "catchupRemaining (SystemManager_begin applyDefaults ?b SystemManager_new) = 1"
    using b(5) [OF 2] by (simp only: bn gn df)
  from dst idle 1 2 3 show ?thesis by blast
qed

text \<open>
  C2, amended. When a periodic forced re-synchronisation is due and reports a DST/time-zone
  shift (the condition \<open>dstShiftDetected\<close> under which the source realigns: the DST flag
  flipped across the synchronisation and the system clock was corrected by 55 to 65
  minutes), the engine sets the hand position to the minute of day of the clock read after
  the synchronisation and persists hour and minute of that reading, in one step: nothing is
  written to the outputs, and the catch-up session state is left as it was. No forward
  difference enters the result.
  At boot, \<open>begin\<close> under the same report also ends with the hand position at the minute of
  day of the clock it compared with, that reading persisted, and no pulse emitted, whatever
  the stored position was. The boot gate that follows reads the clock again: a session is
  started exactly when that second reading is ahead of the aligned position by a non-zero
  difference within the cap, with that difference as the number of pulses; when both
  readings show the same minute no session is started.
\<close>

theorem dst_shift_realigns_without_catchup:
  assumes "mode cfg = ''auto''"
    and "(word_of_int (ntpResyncEveryMinutes cfg) :: u32) * 60 * 1000 \<noteq> 0"
    and "\<not> millis (hardware w) - lastNtpSyncMs w
             < word_of_int (ntpResyncEveryMinutes cfg) * 60 * 1000"
    and "dstShiftDetected (ntp inp)"
  shows "loop_ntp cfg inp w =
           w\<lparr>lastNtpSyncMs := millis (hardware w),
              hardware := delay 200 (delay (sync_ms (ntp inp)) (hardware w)),
              lastImpulseMinutes := minutesOfDay (sysLocalNow (after_clocks inp)),
              stateManager :=
                snd (saveClockTime
                       (DateTime_of 2000 1 1 (int (hour (sysLocalNow (after_clocks inp))))
                          (int (minute (sysLocalNow (after_clocks inp)))) 0)
                       (stateManager w)),
              logger := logger w @
                [(LInfo, TzBeforeAfter (isdst_before (ntp inp)) (isdst_after (ntp inp))),
                 (LInfo, NtpDstAligned)]\<rparr>
       \<and> emitted (hardware (loop_ntp cfg inp w)) = emitted (hardware w)
       \<and> catchupActive (loop_ntp cfg inp w) = catchupActive w
       \<and> catchupRemaining (loop_ntp cfg inp w) = catchupRemaining w
       \<and> (dstShiftDetected (boot_ntp b) \<and> \<not> catchupActive v \<longrightarrow>
            lastImpulseMinutes (SystemManager_begin cfg b v) = minutesOfDay (boot_now cfg b)
          \<and> stateManager (SystemManager_begin cfg b v)
               = snd (saveClockTime
                        (DateTime_of 2000 1 1 (int (hour (boot_now cfg b)))
                           (int (minute (boot_now cfg b))) 0)
                        (snd (loadLastKnownClockTime (boot_tm b) (stateManager v))))
          \<and> emitted (hardware (SystemManager_begin cfg b v)) = emitted (hardware v)
          \<and> catchupActive (SystemManager_begin cfg b v)
               = (diffForwardMinutes (minutesOfDay (boot_now cfg b))
                    (minutesOfDay (read_now cfg (boot_gate_clocks b))) \<noteq> 0
                  \<and> diffForwardMinutes (minutesOfDay (boot_now cfg b))
                      (minutesOfDay (read_now cfg (boot_gate_clocks b)))
                      \<le> maxCatchupMinutes cfg)
          \<and> (catchupActive (SystemManager_begin cfg b v) \<longrightarrow>
               catchupRemaining (SystemManager_begin cfg b v)
                 = diffForwardMinutes (minutesOfDay (boot_now cfg b))
                     (minutesOfDay (read_now cfg (boot_gate_clocks b))))
          \<and> (minutesOfDay (read_now cfg (boot_gate_clocks b)) = minutesOfDay (boot_now cfg b)
               \<longrightarrow> \<not> catchupActive (SystemManager_begin cfg b v)))"
proof -
  have nz: "sysDelta (ntp inp) \<noteq> 0" using assms(4) by (rule dstShiftDetected_nonzero)
  have eq: "loop_ntp cfg inp w =
           w\<lparr>lastNtpSyncMs := millis (hardware w),
              hardware := delay 200 (delay (sync_ms (ntp inp)) (hardware w)),
              lastImpulseMinutes := minutesOfDay (sysLocalNow (after_clocks inp)),
              stateManager :=
                snd (saveClockTime
                       (DateTime_of 2000 1 1 (int (hour (sysLocalNow (after_clocks inp))))
                          (int (minute (sysLocalNow (after_clocks inp)))) 0)
                       (stateManager w)),
              logger := logger w @
                [(LInfo, TzBeforeAfter (isdst_before (ntp inp)) (isdst_after (ntp inp))),
                 (LInfo, NtpDstAligned)]\<rparr>"
    using assms nz by (simp add: loop_ntp_def Let_def log_info_def save_state_def now_dt_def)
  have "emitted (hardware (loop_ntp cfg inp w)) = emitted (hardware w)"
    by (rule loop_ntp_emitted)
  moreover have "catchupActive (loop_ntp cfg inp w) = catchupActive w"
    and "catchupRemaining (loop_ntp cfg inp w) = catchupRemaining w"
    by (simp_all add: eq)
  moreover have "dstShiftDetected (boot_ntp b) \<and> \<not> catchupActive v \<longrightarrow>
            lastImpulseMinutes (SystemManager_begin cfg b v) = minutesOfDay (boot_now cfg b)
          \<and> stateManager (SystemManager_begin cfg b v)
               = snd (saveClockTime
                        (DateTime_of 2000 1 1 (int (hour (boot_now cfg b)))
                           (int (minute (boot_now cfg b))) 0)
                        (snd (loadLastKnownClockTime (boot_tm b) (stateManager v))))
          \<and> emitted (hardware (SystemManager_begin cfg b v)) = emitted (hardware v)
          \<and> catchupActive (SystemManager_begin cfg b v)
               = (diffForwardMinutes (minutesOfDay (boot_now cfg b))
                    (minutesOfDay (read_now cfg (boot_gate_clocks b))) \<noteq> 0
                  \<and> diffForwardMinutes (minutesOfDay (boot_now cfg b))
                      (minutesOfDay (read_now cfg (boot_gate_clocks b)))
                      \<le> maxCatchupMinutes cfg)
          \<and> (catchupActive (SystemManager_begin cfg b v) \<longrightarrow>
               catchupRemaining (SystemManager_begin cfg b v)
                 = diffForwardMinutes (minutesOfDay (boot_now cfg b))
                     (minutesOfDay (read_now cfg (boot_gate_clocks b))))
          \<and> (minutesOfDay (read_now cfg (boot_gate_clocks b)) = minutesOfDay (boot_now cfg b)
               \<longrightarrow> \<not> catchupActive (SystemManager_begin cfg b v))"
  proof
    assume h: "dstShiftDetected (boot_ntp b) \<and> \<not> catchupActive v"
    then have dst: "dstShiftDetected (boot_ntp b)" and idle: "\<not> catchupActive v" by simp_all
    note bd = begin_dst [OF dst idle, of cfg]
    have same: "minutesOfDay (read_now cfg (boot_gate_clocks b)) = minutesOfDay (boot_now cfg b)
               \<longrightarrow> \<not> catchupActive (SystemManager_begin cfg b v)"
      using bd(4) by simp
    have sm: "stateManager (SystemManager_begin cfg b v)
               = snd (saveClockTime
                        (DateTime_of 2000 1 1 (int (hour (boot_now cfg b)))
                           (int (minute (boot_now cfg b))) 0)
                        (snd (loadLastKnownClockTime (boot_tm b) (stateManager v))))"
      using bd(2) by (simp only: now_dt_def)
    from bd(1) sm bd(3) bd(4) bd(5) same
    show "lastImpulseMinutes (SystemManager_begin cfg b v) = minutesOfDay (boot_now cfg b)
          \<and> stateManager (SystemManager_begin cfg b v)
               = snd (saveClockTime
                        (DateTime_of 2000 1 1 (int (hour (boot_now cfg b)))
                           (int (minute (boot_now cfg b))) 0)
                        (snd (loadLastKnownClockTime (boot_tm b) (stateManager v))))
          \<and> emitted (hardware (SystemManager_begin cfg b v)) = emitted (hardware v)
          \<and> catchupActive (SystemManager_begin cfg b v)
               = (diffForwardMinutes (minutesOfDay (boot_now cfg b))
                    (minutesOfDay (read_now cfg (boot_gate_clocks b))) \<noteq> 0
                  \<and> diffForwardMinutes (minutesOfDay (boot_now cfg b))
                      (minutesOfDay (read_now cfg (boot_gate_clocks b)))
                      \<le> maxCatchupMinutes cfg)
          \<and> (catchupActive (SystemManager_begin cfg b v) \<longrightarrow>
               catchupRemaining (SystemManager_begin cfg b v)
                 = diffForwardMinutes (minutesOfDay (boot_now cfg b))
                     (minutesOfDay (read_now cfg (boot_gate_clocks b))))
          \<and> (minutesOfDay (read_now cfg (boot_gate_clocks b)) = minutesOfDay (boot_now cfg b)
               \<longrightarrow> \<not> catchupActive (SystemManager_begin cfg b v))"
      by blast
  qed
  ultimately show ?thesis using eq by blast
qed

theorem dst_shift_realigns_without_catchup_witness:
  "mode applyDefaults = ''auto''
   \<and> dstShiftDetected
        \<lparr>sync_ms = 300, isdst_before = 0, isdst_after = 1,
         sys_before = 1000000, sys_after = 1003600\<rparr>
   \<and> diffForwardMinutes (lastImpulseMinutes (idle_at 100 900000))
        (minutesOfDay (sysLocalNow (clocks_at 3 0))) = 80
   \<and> lastImpulseMinutes
        (loop_ntp applyDefaults
           (pass_at (clocks_at 3 0)
              \<lparr>sync_ms = 300, isdst_before = 0, isdst_after = 1,
               sys_before = 1000000, sys_after = 1003600\<rparr>)
           (idle_at 100 900000)) = 180
   \<and> state_file (stateManager
        (loop_ntp applyDefaults
           (pass_at (clocks_at 3 0)
              \<lparr>sync_ms = 300, isdst_before = 0, isdst_after = 1,
               sys_before = 1000000, sys_after = 1003600\<rparr>)
           (idle_at 100 900000))) = Some (println ''03:00'')
   \<and> emitted (hardware
        (loop_ntp applyDefaults
           (pass_at (clocks_at 3 0)
              \<lparr>sync_ms = 300, isdst_before = 0, isdst_after = 1,
               sys_before = 1000000, sys_after = 1003600\<rparr>)
           (idle_at 100 900000))) = []
   \<and> \<not> catchupActive
        (loop_ntp applyDefaults
           (pass_at (clocks_at 3 0)
              \<lparr>sync_ms = 300, isdst_before = 0, isdst_after = 1,
               sys_before = 1000000, sys_after = 1003600\<rparr>)
           (idle_at 100 900000))
   \<and> \<not> catchupActive SystemManager_new
   \<and> lastImpulseMinutes
        (SystemManager_begin applyDefaults
           \<lparr>rtcInitOk = True,
            boot_ntp = \<lparr>sync_ms = 300, isdst_before = 0, isdst_after = 1,
                        sys_before = 1000000, sys_after = 1003600\<rparr>,
            boot_tm = None, boot_clocks = clocks_at 3 0, boot_gate_clocks = clocks_at 3 0\<rparr>
           SystemManager_new) = 180
   \<and> state_file (stateManager
        (SystemManager_begin applyDefaults
           \<lparr>rtcInitOk = True,
            boot_ntp = \<lparr>sync_ms = 300, isdst_before = 0, isdst_after = 1,
                        sys_before = 1000000, sys_after = 1003600\<rparr>,
            boot_tm = None, boot_clocks = clocks_at 3 0, boot_gate_clocks = clocks_at 3 0\<rparr>
           SystemManager_new)) = Some (println ''03:00'')
   \<and> emitted (hardware
        (SystemManager_begin applyDefaults
           \<lparr>rtcInitOk = True,
            boot_ntp = \<lparr>sync_ms = 300, isdst_before = 0, isdst_after = 1,
                        sys_before = 1000000, sys_after = 1003600\<rparr>,
            boot_tm = None, boot_clocks = clocks_at 3 0, boot_gate_clocks = clocks_at 3 0\<rparr>
           SystemManager_new)) = []
   \<and> \<not> catchupActive
        (SystemManager_begin applyDefaults
           \<lparr>rtcInitOk = True,
            boot_ntp = \<lparr>sync_ms = 300, isdst_before = 0, isdst_after = 1,
                        sys_before = 1000000, sys_after = 1003600\<rparr>,
            boot_tm = None, boot_clocks = clocks_at 3 0, boot_gate_clocks = clocks_at 3 0\<rparr>
           SystemManager_new)"
proof -
  let ?r = "\<lparr>sync_ms = 300, isdst_before = 0, isdst_after = 1,
         sys_before = 1000000, sys_after = 1003600\<rparr>"
  let ?b = "\<lparr>rtcInitOk = True, boot_ntp = ?r,
            boot_tm = None, boot_clocks = clocks_at 3 0, boot_gate_clocks = clocks_at 3 0\<rparr>"
  let ?inp = "pass_at (clocks_at 3 0) ?r"
  let ?w = "idle_at 100 900000"
  define L where "L = loop_ntp applyDefaults ?inp ?w"
  define B where "B = SystemManager_begin applyDefaults ?b SystemManager_new"
  have m: "mode applyDefaults = ''auto''" by (simp add: sample_defs)
  have every: "(word_of_int (ntpResyncEveryMinutes applyDefaults) :: u32) * 60 * 1000 \<noteq> 0"
    by (simp add: sample_defs)
  have due: "\<not> millis (hardware ?w) - lastNtpSyncMs ?w
             < word_of_int (ntpResyncEveryMinutes applyDefaults) * 60 * 1000"
    by (simp add: sample_defs millis_def)
  have dst: "dstShiftDetected ?r"
    by (simp add: dstShiftDetected_def dstFlip_def sysDelta_def)
  have dst': "dstShiftDetected (ntp ?inp)" using dst by (simp add: pass_at_def)
  have d: "diffForwardMinutes (lastImpulseMinutes ?w)
        (minutesOfDay (sysLocalNow (clocks_at 3 0))) = 80"
    by (simp add: sample_defs)
  have three: "formatDateTime (DateTime_of 2000 1 1 3 0 0) = ''03:00''"
    by (simp add: formatDateTime_def DateTime_of_def u8_of_def hhmm_def fmt02d_def dec.simps
        digit_char_def)
  have after: "DateTime_of 2000 1 1 (int (hour (sysLocalNow (after_clocks ?inp))))
                 (int (minute (sysLocalNow (after_clocks ?inp)))) 0 = DateTime_of 2000 1 1 3 0 0"
    by (simp add: sample_defs)
  have boot: "DateTime_of 2000 1 1 (int (hour (boot_now applyDefaults ?b)))
                 (int (minute (boot_now applyDefaults ?b))) 0 = DateTime_of 2000 1 1 3 0 0"
    by (simp add: boot_now_def sample_defs)
  have cw: "can_write (stateManager ?w)" by (simp add: sample_defs)
  have ld: "snd (loadLastKnownClockTime None (stateManager SystemManager_new))
        = write_line (hhmm 0 0) \<lparr>state_file = None, can_read = True, can_write = True\<rparr>"
    by (simp add: loadLastKnownClockTime_def SystemManager_new_def)
  have cwb: "can_write (snd (loadLastKnownClockTime (boot_tm ?b) (stateManager SystemManager_new)))"
    by (simp add: ld write_line_def)
  have e: "emitted (hardware ?w) = []" "emitted (hardware SystemManager_new) = []"
    by (simp_all add: sample_defs emitted_def)
  have i: "\<not> catchupActive ?w" "\<not> catchupActive SystemManager_new"
    by (simp_all add: sample_defs)
  have n: "minutesOfDay (sysLocalNow (after_clocks ?inp)) = 180" by (simp add: sample_defs)
  have bn: "minutesOfDay (boot_now applyDefaults ?b) = 180"
    by (simp add: boot_now_def sample_defs)
  have gn: "minutesOfDay (read_now applyDefaults (boot_gate_clocks ?b))
              = minutesOfDay (boot_now applyDefaults ?b)"
    by (simp add: boot_now_def sample_defs)
  have bd: "dstShiftDetected (boot_ntp ?b)" using dst by simp
  note main = dst_shift_realigns_without_catchup
    [OF m every due dst', of ?b SystemManager_new, folded L_def B_def]
  from main have eqL: "L = ?w\<lparr>lastNtpSyncMs := millis (hardware ?w),
       hardware := delay 200 (delay (sync_ms (ntp ?inp)) (hardware ?w)),
       lastImpulseMinutes := minutesOfDay (sysLocalNow (after_clocks ?inp)),
       stateManager :=
         snd (saveClockTime
                (DateTime_of 2000 1 1 (int (hour (sysLocalNow (after_clocks ?inp))))
                   (int (minute (sysLocalNow (after_clocks ?inp)))) 0)
                (stateManager ?w)),
       logger := logger ?w @
         [(LInfo, TzBeforeAfter (isdst_before (ntp ?inp)) (isdst_after (ntp ?inp))),
          (LInfo, NtpDstAligned)]\<rparr>"
    and emL: "emitted (hardware L) = emitted (hardware ?w)"
    and acL: "catchupActive L = catchupActive ?w"
    by blast+
  from main bd i(2)
  have liB: "lastImpulseMinutes B = minutesOfDay (boot_now applyDefaults ?b)"
    and smB: "stateManager B
               = snd (saveClockTime
                        (DateTime_of 2000 1 1 (int (hour (boot_now applyDefaults ?b)))
                           (int (minute (boot_now applyDefaults ?b))) 0)
                        (snd (loadLastKnownClockTime (boot_tm ?b)
                                (stateManager SystemManager_new))))"
    and emB: "emitted (hardware B) = emitted (hardware SystemManager_new)"
    and sameB: "minutesOfDay (read_now applyDefaults (boot_gate_clocks ?b))
                  = minutesOfDay (boot_now applyDefaults ?b) \<longrightarrow> \<not> catchupActive B"
    by blast+
  have 1: "lastImpulseMinutes L = 180" by (simp add: eqL n)
  have "stateManager L = snd (saveClockTime (DateTime_of 2000 1 1 3 0 0) (stateManager ?w))"
    by (simp add: eqL after)
  then have 2: "state_file (stateManager L) = Some (println ''03:00'')"
    using saved_file [OF cw, of "DateTime_of 2000 1 1 3 0 0"] by (simp only: three)
  have 3: "emitted (hardware L) = []" by (simp only: emL e)
  have 4: "\<not> catchupActive L" using i(1) acL by blast
  have 5: "lastImpulseMinutes B = 180" by (simp only: liB bn)
  have "stateManager B
          = snd (saveClockTime (DateTime_of 2000 1 1 3 0 0)
                   (snd (loadLastKnownClockTime (boot_tm ?b) (stateManager SystemManager_new))))"
    by (simp only: smB boot)
  then have 6: "state_file (stateManager B) = Some (println ''03:00'')"
    using saved_file [OF cwb, of "DateTime_of 2000 1 1 3 0 0"] by (simp only: three)
  have 7: "emitted (hardware B) = []" by (simp only: emB e)
  have 8: "\<not> catchupActive B" using sameB gn by blast
  from m dst d 1 2 3 4 i(2) 5 6 7 8 show ?thesis
    unfolding L_def B_def by blast
qed

lemma startCatchUp_fields:
  "catchupActive (startCatchUp cfg d r w)"
  "catchupRemaining (startCatchUp cfg d r w) = d"
  "catchupLastPulseMs (startCatchUp cfg d r w) = 0"
  "catchupIntervalMs (startCatchUp cfg d r w) = word_of_int (impulseDelayMs cfg) + 150 + 50"
  "lastImpulseMinutes (startCatchUp cfg d r w) = lastImpulseMinutes w"
  "stateManager (startCatchUp cfg d r w) = stateManager w"
  "pulseManager (startCatchUp cfg d r w) = pulseManager w"
  by (simp_all add: startCatchUp_def Let_def log_info_def)

lemma catchup_session_run:
  assumes "0 < d"
    and "0 \<le> lastImpulseMinutes w0" and "lastImpulseMinutes w0 < 1440"
    and "w = startCatchUp cfg d reason w0"
    and "ps = catchup_pulses cfg ins w"
    and "w' = catchup_run cfg ins w"
  shows "int (length ps) \<le> d
       \<and> emitted (hardware w')
           = emitted (hardware w0) @ alternation (lastWasA (pulseManager w0)) (length ps)
       \<and> catchupActive w' = (int (length ps) < d)
       \<and> catchupRemaining w' = d - int (length ps)
       \<and> (int (length ps) < d \<longrightarrow>
            lastImpulseMinutes w' = (lastImpulseMinutes w0 + int (length ps)) mod 1440
          \<and> stateManager w'
              = (if ps = [] then stateManager w0
                 else snd (saveClockTime
                             (hand_dt ((lastImpulseMinutes w0 + int (length ps)) mod 1440))
                             (stateManager w0))))
       \<and> (int (length ps) = d \<longrightarrow>
            lastImpulseMinutes w' = minutesOfDay (read_now cfg (last ps))
          \<and> stateManager w'
              = snd (saveClockTime (now_dt (read_now cfg (last ps))) (stateManager w0)))
       \<and> ((\<forall>(ms, c) \<in> set ins. word_of_int (impulseDelayMs cfg) + 150 + 50 \<le> ms) \<longrightarrow>
            ps = take (nat d) (map snd ins))"
proof -
  note f = startCatchUp_fields [of cfg d reason w0]
  have act: "catchupActive w" and rem: "catchupRemaining w = d"
    and lp: "catchupLastPulseMs w = 0 \<or> catchupLastPulseMs w = millis (hardware w)"
    and iv: "catchupIntervalMs w = word_of_int (impulseDelayMs cfg) + 150 + 50"
    and li: "lastImpulseMinutes w = lastImpulseMinutes w0"
    and sm: "stateManager w = stateManager w0"
    and pm: "pulseManager w = pulseManager w0"
    and hw: "hardware w = hardware w0"
    using f by (simp_all add: assms(4))
  have pos: "0 < catchupRemaining w" "0 \<le> lastImpulseMinutes w" "lastImpulseMinutes w < 1440"
    using assms(1-3) rem li by simp_all
  note inv = catchup_run_invariant [OF act pos, of cfg ins]
  have paced: "(\<forall>(ms, c) \<in> set ins. word_of_int (impulseDelayMs cfg) + 150 + 50 \<le> ms) \<longrightarrow>
            ps = take (nat d) (map snd ins)"
  proof
    assume "\<forall>(ms, c) \<in> set ins. word_of_int (impulseDelayMs cfg) + 150 + 50 \<le> ms"
    then have "\<forall>(ms, c) \<in> set ins. catchupIntervalMs w \<le> ms" by (simp add: iv)
    from catchup_run_paced [OF act pos(1) lp this, of cfg]
    show "ps = take (nat d) (map snd ins)" by (simp add: assms(5) rem)
  qed
  from inv paced show ?thesis
    unfolding assms(5) [symmetric] assms(6) [symmetric] rem li sm pm hw
    by blast
qed

text \<open>
  C4. Let a catch-up session be started with \<open>remaining = d > 0\<close> from a hand position
  \<open>m\<close> in \<open>[0, 1439]\<close>, and let the catch-up engine be called any number of times, with any
  time passing between the calls. Let \<open>k\<close> be the number of calls whose pulse was accepted so
  far. Then \<open>k \<le> d\<close>, the pulses emitted alternate, and the session is active exactly as
  long as \<open>k < d\<close>, with \<open>remaining = d - k\<close>. While \<open>k < d\<close> the hand position is
  \<open>p = (m + k) mod 1440\<close>, and that position is what was last saved: the state manager is
  the one obtained by saving hour \<open>p div 60\<close> and minute \<open>p mod 60\<close>, and on a writable
  card the state file holds exactly the line \<open>HH:MM\<close> of \<open>p\<close>. Each accepted pulse thus
  advances the position by one and persists it. With the \<open>d\<close>-th accepted pulse the session
  is inactive and the hand position is the minute of day of the clock read in that very
  call, and the file holds the hour and minute of that reading. The session does terminate:
  if every call comes at least \<open>intervalMs\<close> after the previous one, then each of the first
  \<open>d\<close> calls emits a pulse.
\<close>

theorem catchup_session_terminates:
  assumes "0 < d"
    and "0 \<le> lastImpulseMinutes w0" and "lastImpulseMinutes w0 < 1440"
    and "w = startCatchUp cfg d reason w0"
    and "ps = catchup_pulses cfg ins w"
    and "w' = catchup_run cfg ins w"
    and "p = (lastImpulseMinutes w0 + int (length ps)) mod 1440"
    and "n = read_now cfg (last ps)"
  shows "int (length ps) \<le> d
       \<and> emitted (hardware w')
           = emitted (hardware w0) @ alternation (lastWasA (pulseManager w0)) (length ps)
       \<and> catchupActive w' = (int (length ps) < d)
       \<and> catchupRemaining w' = d - int (length ps)
       \<and> (int (length ps) < d \<longrightarrow>
            lastImpulseMinutes w' = p
          \<and> stateManager w'
              = (if ps = [] then stateManager w0
                 else snd (saveClockTime (DateTime_of 2000 1 1 (p div 60) (p mod 60) 0)
                             (stateManager w0)))
          \<and> (ps \<noteq> [] \<and> can_write (stateManager w0) \<longrightarrow>
               state_file (stateManager w') = Some (println (hhmm (p div 60) (p mod 60)))))
       \<and> (int (length ps) = d \<longrightarrow>
            lastImpulseMinutes w' = minutesOfDay n
          \<and> stateManager w'
              = snd (saveClockTime
                       (DateTime_of 2000 1 1 (int (hour n)) (int (minute n)) 0)
                       (stateManager w0))
          \<and> (can_write (stateManager w0) \<longrightarrow>
               state_file (stateManager w')
                 = Some (println (hhmm (int (hour n mod 256)) (int (minute n mod 256))))))
       \<and> ((\<forall>(ms, c) \<in> set ins. word_of_int (impulseDelayMs cfg) + 150 + 50 \<le> ms) \<longrightarrow>
            ps = take (nat d) (map snd ins))"
proof -
  note run = catchup_session_run [OF assms(1-6)]
  have p0: "0 \<le> p" and p1: "p < 1440" by (simp_all add: assms(7))
  have hd: "hand_dt p = DateTime_of 2000 1 1 (p div 60) (p mod 60) 0"
    using p0 p1 by (rule hand_dt_in_range)
  have nd: "now_dt n = DateTime_of 2000 1 1 (int (hour n)) (int (minute n)) 0"
    by (simp add: now_dt_def)
  have stepping: "int (length ps) < d \<longrightarrow>
            lastImpulseMinutes w' = p
          \<and> stateManager w'
              = (if ps = [] then stateManager w0
                 else snd (saveClockTime (DateTime_of 2000 1 1 (p div 60) (p mod 60) 0)
                             (stateManager w0)))
          \<and> (ps \<noteq> [] \<and> can_write (stateManager w0) \<longrightarrow>
               state_file (stateManager w') = Some (println (hhmm (p div 60) (p mod 60))))"
  proof
    assume less: "int (length ps) < d"
    with run have li: "lastImpulseMinutes w' = p"
      and sm: "stateManager w'
              = (if ps = [] then stateManager w0
                 else snd (saveClockTime (hand_dt p) (stateManager w0)))"
      unfolding assms(7) by blast+
    have "ps \<noteq> [] \<and> can_write (stateManager w0) \<longrightarrow>
               state_file (stateManager w') = Some (println (hhmm (p div 60) (p mod 60)))"
      using sm hand_file [OF p0 p1] by simp
    with li sm show "lastImpulseMinutes w' = p
          \<and> stateManager w'
              = (if ps = [] then stateManager w0
                 else snd (saveClockTime (DateTime_of 2000 1 1 (p div 60) (p mod 60) 0)
                             (stateManager w0)))
          \<and> (ps \<noteq> [] \<and> can_write (stateManager w0) \<longrightarrow>
               state_file (stateManager w') = Some (println (hhmm (p div 60) (p mod 60))))"
      by (simp add: hd)
  qed
  have final: "int (length ps) = d \<longrightarrow>
            lastImpulseMinutes w' = minutesOfDay n
          \<and> stateManager w'
              = snd (saveClockTime
                       (DateTime_of 2000 1 1 (int (hour n)) (int (minute n)) 0)
                       (stateManager w0))
          \<and> (can_write (stateManager w0) \<longrightarrow>
               state_file (stateManager w')
                 = Some (println (hhmm (int (hour n mod 256)) (int (minute n mod 256)))))"
  proof
    assume eq: "int (length ps) = d"
    with run have li: "lastImpulseMinutes w' = minutesOfDay n"
      and sm: "stateManager w' = snd (saveClockTime (now_dt n) (stateManager w0))"
      unfolding assms(8) by blast+
    have "can_write (stateManager w0) \<longrightarrow>
               state_file (stateManager w')
                 = Some (println (hhmm (int (hour n mod 256)) (int (minute n mod 256))))"
      using sm now_file [of "stateManager w0" n] by simp
    with li sm show "lastImpulseMinutes w' = minutesOfDay n
          \<and> stateManager w'
              = snd (saveClockTime
                       (DateTime_of 2000 1 1 (int (hour n)) (int (minute n)) 0)
                       (stateManager w0))
          \<and> (can_write (stateManager w0) \<longrightarrow>
               state_file (stateManager w')
                 = Some (println (hhmm (int (hour n mod 256)) (int (minute n mod 256)))))"
      by (simp add: nd)
  qed
  from run stepping final show ?thesis by blast
qed

theorem catchup_session_terminates_witness:
  "(0::int) < 7
   \<and> lastImpulseMinutes (idle_at 0 1000) = 0
   \<and> catchup_pulses applyDefaults
        [(700, clocks_at 0 7), (700, clocks_at 0 7), (700, clocks_at 0 7), (700, clocks_at 0 7),
         (700, clocks_at 0 7), (700, clocks_at 0 7), (700, clocks_at 0 8)]
        (startCatchUp applyDefaults 7 ''boot'' (idle_at 0 1000))
      = [clocks_at 0 7, clocks_at 0 7, clocks_at 0 7, clocks_at 0 7,
         clocks_at 0 7, clocks_at 0 7, clocks_at 0 8]
   \<and> \<not> catchupActive
        (catchup_run applyDefaults
           [(700, clocks_at 0 7), (700, clocks_at 0 7), (700, clocks_at 0 7), (700, clocks_at 0 7),
            (700, clocks_at 0 7), (700, clocks_at 0 7), (700, clocks_at 0 8)]
           (startCatchUp applyDefaults 7 ''boot'' (idle_at 0 1000)))
   \<and> lastImpulseMinutes
        (catchup_run applyDefaults
           [(700, clocks_at 0 7), (700, clocks_at 0 7), (700, clocks_at 0 7), (700, clocks_at 0 7),
            (700, clocks_at 0 7), (700, clocks_at 0 7), (700, clocks_at 0 8)]
           (startCatchUp applyDefaults 7 ''boot'' (idle_at 0 1000))) = 8
   \<and> emitted (hardware
        (catchup_run applyDefaults
           [(700, clocks_at 0 7), (700, clocks_at 0 7), (700, clocks_at 0 7), (700, clocks_at 0 7),
            (700, clocks_at 0 7), (700, clocks_at 0 7), (700, clocks_at 0 8)]
           (startCatchUp applyDefaults 7 ''boot'' (idle_at 0 1000))))
      = [PolA, PolB, PolA, PolB, PolA, PolB, PolA]
   \<and> state_file (stateManager
        (catchup_run applyDefaults
           [(700, clocks_at 0 7), (700, clocks_at 0 7), (700, clocks_at 0 7), (700, clocks_at 0 7),
            (700, clocks_at 0 7), (700, clocks_at 0 7), (700, clocks_at 0 8)]
           (startCatchUp applyDefaults 7 ''boot'' (idle_at 0 1000)))) = Some (println ''00:08'')
   \<and> lastImpulseMinutes
        (catchup_run applyDefaults
           [(700, clocks_at 0 7), (700, clocks_at 0 7), (700, clocks_at 0 7)]
           (startCatchUp applyDefaults 7 ''boot'' (idle_at 0 1000))) = 3
   \<and> catchupRemaining
        (catchup_run applyDefaults
           [(700, clocks_at 0 7), (700, clocks_at 0 7), (700, clocks_at 0 7)]
           (startCatchUp applyDefaults 7 ''boot'' (idle_at 0 1000))) = 4
   \<and> state_file (stateManager
        (catchup_run applyDefaults
           [(700, clocks_at 0 7), (700, clocks_at 0 7), (700, clocks_at 0 7)]
           (startCatchUp applyDefaults 7 ''boot'' (idle_at 0 1000)))) = Some (println ''00:03'')"
proof -
  let ?v = "idle_at 0 1000"
  let ?w = "startCatchUp applyDefaults 7 ''boot'' ?v"
  let ?ins = "[(700, clocks_at 0 7), (700, clocks_at 0 7), (700, clocks_at 0 7),
     (700, clocks_at 0 7), (700, clocks_at 0 7), (700, clocks_at 0 7), (700::u32, clocks_at 0 8)]"
  let ?ins3 = "[(700::u32, clocks_at 0 7), (700, clocks_at 0 7), (700, clocks_at 0 7)]"
  define W where "W = catchup_run applyDefaults ?ins ?w"
  define PS where "PS = catchup_pulses applyDefaults ?ins ?w"
  define P where "P = (lastImpulseMinutes ?v + int (length PS)) mod 1440"
  define N where "N = read_now applyDefaults (last PS)"
  define W3 where "W3 = catchup_run applyDefaults ?ins3 ?w"
  define PS3 where "PS3 = catchup_pulses applyDefaults ?ins3 ?w"
  define P3 where "P3 = (lastImpulseMinutes ?v + int (length PS3)) mod 1440"
  define N3 where "N3 = read_now applyDefaults (last PS3)"
  have d: "(0::int) < 7" by simp
  have m0: "lastImpulseMinutes ?v = 0" by (simp add: sample_defs)
  have lo: "0 \<le> lastImpulseMinutes ?v" and hi: "lastImpulseMinutes ?v < 1440"
    by (simp_all add: m0)
  have iv: "(word_of_int (impulseDelayMs applyDefaults) :: u32) + 150 + 50 = 700"
    by (simp add: sample_defs)
  have paced: "\<forall>(ms, c) \<in> set ?ins. word_of_int (impulseDelayMs applyDefaults) + 150 + 50 \<le> ms"
    by (simp add: iv)
  have paced3: "\<forall>(ms, c) \<in> set ?ins3. word_of_int (impulseDelayMs applyDefaults) + 150 + 50 \<le> ms"
    by (simp add: iv)
  have e0: "emitted (hardware ?v) = []" "lastWasA (pulseManager ?v) = False"
    by (simp_all add: sample_defs emitted_def)
  have cw: "can_write (stateManager ?v)"
    by (simp add: sample_defs)
  note main = catchup_session_terminates
    [of 7 ?v ?w applyDefaults "''boot''" PS ?ins W P N, OF d lo hi refl PS_def W_def P_def N_def]
  note main3 = catchup_session_terminates
    [of 7 ?v ?w applyDefaults "''boot''" PS3 ?ins3 W3 P3 N3,
     OF d lo hi refl PS3_def W3_def P3_def N3_def]
  from main paced have ps: "PS
      = [clocks_at 0 7, clocks_at 0 7, clocks_at 0 7, clocks_at 0 7,
         clocks_at 0 7, clocks_at 0 7, clocks_at 0 8]"
    by simp
  from main3 paced3 have ps3: "PS3 = [clocks_at 0 7, clocks_at 0 7, clocks_at 0 7]"
    by simp
  have n8: "minutesOfDay N = 8"
    by (simp add: N_def ps sample_defs)
  have h8: "hhmm (int (hour N mod 256)) (int (minute N mod 256)) = ''00:08''"
    by (simp add: N_def ps sample_defs hhmm_def fmt02d_def dec.simps digit_char_def)
  have p3: "P3 = 3" by (simp add: P3_def ps3 m0)
  have h3: "hhmm (3 div 60) (3 mod 60) = ''00:03''"
    by (simp add: hhmm_def fmt02d_def dec.simps digit_char_def)
  have alt: "alternation False 7 = [PolA, PolB, PolA, PolB, PolA, PolB, PolA]"
    by (simp add: eval_nat_numeral)
  from main have 1: "\<not> catchupActive W"
    unfolding ps by simp
  from main have 2: "lastImpulseMinutes W = 8"
    unfolding ps by (simp add: n8)
  from main have 3: "emitted (hardware W) = [PolA, PolB, PolA, PolB, PolA, PolB, PolA]"
    unfolding ps by (simp add: e0 alt)
  have len: "int (length PS) = 7" by (simp add: ps)
  from main len cw
  have "state_file (stateManager W)
          = Some (println (hhmm (int (hour N mod 256)) (int (minute N mod 256))))"
    by blast
  then have 4: "state_file (stateManager W) = Some (println ''00:08'')"
    by (simp only: h8)
  from main3 have 5: "lastImpulseMinutes W3 = 3"
    unfolding ps3 by (simp add: p3)
  from main3 have 6: "catchupRemaining W3 = 4"
    unfolding ps3 by simp
  have len3: "int (length PS3) < 7" and ne3: "PS3 \<noteq> []" by (simp_all add: ps3)
  from main3 len3 ne3 cw
  have "state_file (stateManager W3) = Some (println (hhmm (P3 div 60) (P3 mod 60)))"
    by blast
  then have 7: "state_file (stateManager W3) = Some (println ''00:03'')"
    by (simp only: p3 h3)
  from d m0 ps 1 2 3 4 5 6 7 show ?thesis
    unfolding W_def PS_def W3_def PS3_def by blast
qed

section \<open>The state file\<close>

text \<open>The scanner on some lines: both stored formats are accepted, other text is not.\<close>

lemmas scan_defs = scan_date_time_def scan_time_def fmt_date_time_def fmt_time_def scan_int_def
  isspace_def isdigit_def digits_val_def digit_val_def valid_hm_def readStringUntil_def

lemma scan_time_short_form: "scan_time ''12:34'' = Some (12, 34)"
  by (simp add: scan_defs)

lemma scan_date_time_rejects_short_form: "scan_date_time ''12:34'' = None"
  by (simp add: scan_defs)

lemma scan_date_time_long_form:
  "scan_date_time ''2024-05-06 07:08'' = Some (7, 8)"
  by (simp add: scan_defs)

lemma scan_time_rejects_text: "scan_time ''garbage'' = None"
  by (simp add: scan_defs)

lemma scan_time_rejects_out_of_range: "scan_time ''25:61'' = None"
  by (simp add: scan_defs)

lemma scan_time_of_written_line:
  "scan_time (readStringUntil (CHR 0x0A) (println ''07:08'')) = Some (7, 8)"
  by (simp add: scan_defs println_def)

lemma hhmm_example: "hhmm 12 34 = ''12:34''"
  by (simp add: hhmm_def fmt02d_def dec.simps digit_char_def)

lemma digit_char_facts:
  "isdigit (digit_char k)" "\<not> isspace (digit_char k)"
  "digit_char k \<noteq> CHR ''-''" "digit_char k \<noteq> CHR ''+''" "digit_char k \<noteq> CHR '':''"
  "digit_char k \<noteq> CHR 0x0A"
proof -
  have "k mod 10 < length ''0123456789''" by simp
  then have mem: "digit_char k \<in> set ''0123456789''"
    unfolding digit_char_def by (rule nth_mem)
  show "isdigit (digit_char k)" using mem by (simp add: isdigit_def)
  show "\<not> isspace (digit_char k)" using mem by (auto simp add: isspace_def)
  show "digit_char k \<noteq> CHR ''-''" "digit_char k \<noteq> CHR ''+''" "digit_char k \<noteq> CHR '':''"
    "digit_char k \<noteq> CHR 0x0A"
    using mem by auto
qed

lemma digit_val_digit_char: "digit_val (digit_char k) = int (k mod 10)"
proof -
  have "i < 10 \<Longrightarrow> digit_val (''0123456789'' ! i) = int i" for i
    by (auto simp add: less_Suc_eq eval_nat_numeral digit_val_def)
  from this [of "k mod 10"] show ?thesis by (simp add: digit_char_def)
qed

lemma fmt02d_two_digits:
  assumes "n < 100"
  shows "fmt02d (int n) = [digit_char (n div 10), digit_char n]"
proof (cases "n < 10")
  case True
  then have "dec n = [digit_char n]" by (simp add: dec.simps)
  moreover have "digit_char (n div 10) = CHR ''0''" using True by (simp add: digit_char_def)
  ultimately show ?thesis by (simp add: fmt02d_def)
next
  case False
  with assms have "n div 10 < 10" by simp
  then have "dec (n div 10) = [digit_char (n div 10)]" by (simp add: dec.simps)
  with False have "dec n = [digit_char (n div 10), digit_char n]"
    by (subst dec.simps) simp
  then show ?thesis by (simp add: fmt02d_def)
qed

lemma scan_int_two_digits:
  assumes "\<not> isdigit c"
  shows "scan_int (digit_char a # digit_char b # c # r)
           = Some (int (a mod 10) * 10 + int (b mod 10), c # r)"
  using assms
  by (simp add: scan_int_def Let_def digit_char_facts digits_val_def digit_val_digit_char)


lemma two_digit_value: "int (n div 10) * 10 + int (n mod 10) = int n"
proof -
  have "int (n div 10 * 10 + n mod 10) = int n" by simp
  then show ?thesis by (simp only: of_nat_add of_nat_mult of_nat_numeral)
qed

lemma formatDateTime_digits:
  assumes "hour dt < 24" and "minute dt < 60"
  shows "formatDateTime dt
           = [digit_char (hour dt div 10), digit_char (hour dt), CHR '':'',
              digit_char (minute dt div 10), digit_char (minute dt)]"
  using assms by (simp add: formatDateTime_def hhmm_def fmt02d_two_digits)

text \<open>
  Writer and reader agree: a time of day saved by \<open>saveClockTime\<close> on a working card is
  what \<open>loadLastKnownClockTime\<close> returns, and loading leaves the file as written.
\<close>

lemma load_after_save:
  assumes h: "hour dt < 24" and m: "minute dt < 60" and "can_write sd" and "can_read sd"
  shows "loadLastKnownClockTime tm (snd (saveClockTime dt sd))
           = (DateTime_of 2000 1 1 (int (hour dt)) (int (minute dt)) 0,
              snd (saveClockTime dt sd))"
proof -
  let ?line = "[digit_char (hour dt div 10), digit_char (hour dt), CHR '':'',
              digit_char (minute dt div 10), digit_char (minute dt), CHR 0x0D]"
  let ?full = "[digit_char (hour dt div 10), digit_char (hour dt), CHR '':'',
              digit_char (minute dt div 10), digit_char (minute dt), CHR 0x0D, CHR 0x0A]"
  have saved: "snd (saveClockTime dt sd) = sd\<lparr>state_file := Some ?full\<rparr>"
    using assms by (simp add: saveClockTime_def println_def formatDateTime_digits)
  have rd: "readStringUntil (CHR 0x0A) ?full = ?line"
    by (simp add: readStringUntil_def digit_char_facts)
  have nd: "\<not> isdigit (CHR '':'')" "\<not> isdigit (CHR 0x0D)"
    by (simp_all add: isdigit_def)
  note hv = two_digit_value [of "hour dt"]
  note mv = two_digit_value [of "minute dt"]
  have long: "scan_date_time ?line = None"
    by (simp add: scan_date_time_def fmt_date_time_def scan_int_two_digits nd)
  have short: "scan_time ?line = Some (int (hour dt), int (minute dt))"
    using h m
    by (simp add: scan_time_def fmt_time_def scan_int_two_digits nd hv mv valid_hm_def)
  show ?thesis
    using assms by (simp add: saved loadLastKnownClockTime_def rd parseLine_def long short)
qed

text \<open>
  C8 as stated: with no state file on the card and the system clock at 12:34, loading
  returns 12:34 (minute 754 of the day), not 00:00, and writes \<open>12:34\<close> to the new file.
\<close>

theorem load_missing_file_counterexample:
  "state_file \<lparr>state_file = None, can_read = True, can_write = True\<rparr> = None
   \<and> loadLastKnownClockTime (Some (12, 34))
        \<lparr>state_file = None, can_read = True, can_write = True\<rparr>
      = (\<lparr>year = 2000, month = 1, day = 1, hour = 12, minute = 34, second = 0\<rparr>,
         \<lparr>state_file = Some (println ''12:34''), can_read = True, can_write = True\<rparr>)
   \<and> minutesOfDay
        (fst (loadLastKnownClockTime (Some (12, 34))
               \<lparr>state_file = None, can_read = True, can_write = True\<rparr>)) = 754"
proof -
  have h: "hhmm 12 34 = ''12:34''"
    by (simp add: hhmm_def fmt02d_def dec.simps digit_char_def)
  show ?thesis
    by (simp add: loadLastKnownClockTime_def write_line_def DateTime_of_def u8_of_def h
        minutesOfDay_def)
qed

text \<open>
  C8, amended. \<open>loadLastKnownClockTime\<close> returns 00:00 and writes \<open>00:00\<close> back when the
  stored line matches neither format (or holds an hour or minute out of range), and also
  when the existing file cannot be opened for reading. When there is no file it returns the
  hour and minute of the system clock (00:00 if \<open>localtime\<close> gives nothing) and writes
  those. Writing back replaces the file by the line if the file can be opened for writing,
  and is skipped otherwise.
\<close>

theorem load_defaults:
  "(state_file sd = Some content \<and> can_read sd
      \<and> scan_date_time (readStringUntil (CHR 0x0A) content) = None
      \<and> scan_time (readStringUntil (CHR 0x0A) content) = None
     \<longrightarrow> loadLastKnownClockTime tmnow sd
           = (DateTime_of 2000 1 1 0 0 0, write_line ''00:00'' sd))
   \<and> (state_file sd = Some content \<and> \<not> can_read sd
     \<longrightarrow> loadLastKnownClockTime tmnow sd
           = (DateTime_of 2000 1 1 0 0 0, write_line ''00:00'' sd))
   \<and> (state_file sd = None
     \<longrightarrow> loadLastKnownClockTime (Some (h, m)) sd
           = (DateTime_of 2000 1 1 h m 0, write_line (hhmm h m) sd)
       \<and> loadLastKnownClockTime None sd
           = (DateTime_of 2000 1 1 0 0 0, write_line (hhmm 0 0) sd))
   \<and> (can_write sd \<longrightarrow> state_file (write_line s sd) = Some (println s))
   \<and> (\<not> can_write sd \<longrightarrow> write_line s sd = sd)
   \<and> minutesOfDay (DateTime_of 2000 1 1 0 0 0) = 0
   \<and> hhmm 0 0 = ''00:00''"
proof -
  have z: "hhmm 0 0 = ''00:00''"
    by (simp add: hhmm_def fmt02d_def dec.simps digit_char_def)
  have m: "minutesOfDay (DateTime_of 2000 1 1 0 0 0) = 0"
    by (simp add: minutesOfDay_def DateTime_of_def u8_of_def)
  show ?thesis
    by (simp add: z m loadLastKnownClockTime_def parseLine_def write_line_def)
qed

theorem load_defaults_witness:
  "scan_date_time (readStringUntil (CHR 0x0A) (println ''25:61'')) = None
   \<and> scan_time (readStringUntil (CHR 0x0A) (println ''25:61'')) = None
   \<and> loadLastKnownClockTime (Some (12, 34))
        \<lparr>state_file = Some (println ''25:61''), can_read = True, can_write = True\<rparr>
      = (DateTime_of 2000 1 1 0 0 0,
         \<lparr>state_file = Some (println ''00:00''), can_read = True, can_write = True\<rparr>)
   \<and> loadLastKnownClockTime (Some (12, 34))
        \<lparr>state_file = Some ''garbage'', can_read = False, can_write = True\<rparr>
      = (DateTime_of 2000 1 1 0 0 0,
         \<lparr>state_file = Some (println ''00:00''), can_read = False, can_write = True\<rparr>)
   \<and> loadLastKnownClockTime (Some (12, 34))
        \<lparr>state_file = None, can_read = True, can_write = True\<rparr>
      = (DateTime_of 2000 1 1 12 34 0,
         \<lparr>state_file = Some (println ''12:34''), can_read = True, can_write = True\<rparr>)
   \<and> loadLastKnownClockTime (Some (12, 34))
        \<lparr>state_file = Some ''garbage'', can_read = True, can_write = False\<rparr>
      = (DateTime_of 2000 1 1 0 0 0,
         \<lparr>state_file = Some ''garbage'', can_read = True, can_write = False\<rparr>)"
proof -
  let ?bad = "\<lparr>state_file = Some (println ''25:61''), can_read = True, can_write = True\<rparr>"
  let ?unread = "\<lparr>state_file = Some ''garbage'', can_read = False, can_write = True\<rparr>"
  let ?none = "\<lparr>state_file = None, can_read = True, can_write = True\<rparr>"
  let ?ro = "\<lparr>state_file = Some ''garbage'', can_read = True, can_write = False\<rparr>"
  have s1: "scan_date_time (readStringUntil (CHR 0x0A) (println ''25:61'')) = None"
    and s2: "scan_time (readStringUntil (CHR 0x0A) (println ''25:61'')) = None"
    and s3: "scan_date_time (readStringUntil (CHR 0x0A) ''garbage'') = None"
    and s4: "scan_time (readStringUntil (CHR 0x0A) ''garbage'') = None"
    by (simp_all add: scan_defs println_def)
  have h: "hhmm 12 34 = ''12:34''"
    by (simp add: hhmm_def fmt02d_def dec.simps digit_char_def)
  from load_defaults [of ?bad "println ''25:61''" "Some (12, 34)" 0 0 "''00:00''"] s1 s2
  have a: "loadLastKnownClockTime (Some (12, 34)) ?bad
      = (DateTime_of 2000 1 1 0 0 0,
         \<lparr>state_file = Some (println ''00:00''), can_read = True, can_write = True\<rparr>)"
    by (simp add: write_line_def)
  from load_defaults [of ?unread "''garbage''" "Some (12, 34)" 0 0 "''00:00''"]
  have b: "loadLastKnownClockTime (Some (12, 34)) ?unread
      = (DateTime_of 2000 1 1 0 0 0,
         \<lparr>state_file = Some (println ''00:00''), can_read = False, can_write = True\<rparr>)"
    by (simp add: write_line_def)
  from load_defaults [of ?none "''''" "None" 12 34 "''12:34''"] h
  have c: "loadLastKnownClockTime (Some (12, 34)) ?none
      = (DateTime_of 2000 1 1 12 34 0,
         \<lparr>state_file = Some (println ''12:34''), can_read = True, can_write = True\<rparr>)"
    by (simp add: write_line_def)
  from load_defaults [of ?ro "''garbage''" "Some (12, 34)" 0 0 "''00:00''"] s3 s4
  have e: "loadLastKnownClockTime (Some (12, 34)) ?ro = (DateTime_of 2000 1 1 0 0 0, ?ro)"
    by simp
  from s1 s2 a b c e show ?thesis by blast
qed

end
